theory Spec2Isabelle
  imports Complex_Main "HOL-Library.Char_ord" "HOL-Library.List_Lexorder" "HOL-Library.AList"
begin

section \<open>Data model (the SQLAlchemy models of app.py)\<close>

text \<open>
  A \<open>db.DateTime\<close> value. Only the calendar fields are read by the code
  (\<open>strftime("%Y-%m")\<close>); a nullable column is a \<open>datetime option\<close>.
\<close>

record datetime =
  year :: nat
  month :: nat
  day :: nat
  hour :: nat
  minute :: nat
  second :: nat

text \<open>
  \<open>class User\<close>. The primary key \<open>id\<close> is \<open>user_id\<close> here (\<open>id\<close> is HOL's identity).
  \<open>role\<close> is a free string column (\<open>db.String(20)\<close>), \<open>points\<close> a Python integer.
\<close>

record user =
  user_id :: nat
  username :: string
  password :: string
  email :: string
  role :: string
  points :: int

text \<open>
  \<open>class Donation\<close>. \<open>quantity\<close> is kept as the handler passes it: the form's string.
  Coordinates are Python floats that the code only stores and hands on; they are reals here.
\<close>

record donation =
  donation_id :: nat
  description :: string
  food_type :: string
  quantity :: string
  pickup_location :: string
  pickup_time :: "datetime option"
  donor_id :: nat
  pickup_latitude :: "real option"
  pickup_longitude :: "real option"

text \<open>\<open>class Report\<close> (its \<open>description\<close> column is \<open>report_description\<close>).\<close>

record report =
  report_id :: nat
  animal_type :: string
  report_description :: string
  location :: string
  contact :: string
  report_time :: "datetime option"
  reporter_id :: nat
  image_filename :: "string option"
  latitude :: "real option"
  longitude :: "real option"

text \<open>\<open>class Event\<close> (columns \<open>id\<close>, \<open>description\<close>, \<open>location\<close> prefixed).\<close>

record event =
  event_id :: nat
  title :: string
  event_description :: string
  event_time :: datetime
  event_location :: string

text \<open>
  The persistent state: the tables in row order, and the names of the files written
  into \<open>UPLOAD_FOLDER\<close> by \<open>file.save\<close>.
\<close>

record app_state =
  users :: "user list"
  donations :: "donation list"
  reports :: "report list"
  events :: "event list"
  uploads :: "string list"

text \<open>Every exception the modelled handlers can raise and do not catch.\<close>

datatype error =
    BadRequestKeyError string
  | ValueError
  | AttributeError
  | KeyError string
  | IntegrityError
  | OperationalError

datatype http_method = GET | POST

text \<open>
  A request: \<open>request.method\<close> (\<open>req_method\<close>), \<open>request.form\<close>, \<open>request.args\<close> and
  \<open>request.files\<close>. An uploaded file is represented by its \<open>filename\<close>, the only
  attribute the code inspects.
\<close>

record request =
  req_method :: http_method
  form :: "string \<rightharpoonup> string"
  args :: "string \<rightharpoonup> string"
  files :: "string \<rightharpoonup> string"

text \<open>
  What a view returns: \<open>redirect(url_for(endpoint))\<close> together with the messages
  flashed before it, or \<open>render_template(name, ...)\<close> with the template's arguments.
\<close>

datatype 'a response =
    Redirect string "string list"
  | Render string 'a

section \<open>Persistence helpers\<close>

text \<open>An autoincremented integer primary key: one more than the largest key in use.\<close>

definition next_id :: "nat list \<Rightarrow> nat" where
  "next_id ids = Suc (fold max ids 0)"

text \<open>
  \<open>load_user\<close> behind \<open>current_user\<close>: the row of the user id kept in the session,
  if there is one.
\<close>

definition current_user :: "app_state \<Rightarrow> nat option \<Rightarrow> user option" where
  "current_user st session =
     (case session of
        None \<Rightarrow> None
      | Some uid \<Rightarrow> find (\<lambda>u. user_id u = uid) (users st))"

text \<open>\<open>current_user.points += n\<close> followed by the commit: an UPDATE of that user's row.\<close>

definition award_points :: "user \<Rightarrow> int \<Rightarrow> app_state \<Rightarrow> app_state" where
  "award_points cu n st =
     st\<lparr>users := map (\<lambda>u. if user_id u = user_id cu then u\<lparr>points := points cu + n\<rparr> else u)
                      (users st)\<rparr>"

text \<open>
  Committing a new \<open>User\<close>: the \<open>unique=True\<close> constraints on \<open>username\<close> and
  \<open>email\<close> make the INSERT fail with an \<open>IntegrityError\<close>.
\<close>

definition insert_user :: "user \<Rightarrow> app_state \<Rightarrow> error + app_state" where
  "insert_user u st =
     (if \<exists>v \<in> set (users st). username v = username u \<or> email v = email u
      then Inl IntegrityError
      else Inr (st\<lparr>users := users st @ [u]\<rparr>))"

text \<open>Assigning \<open>latitude\<close>/\<open>longitude\<close> on a loaded row and committing.\<close>

definition set_report_coords :: "nat \<Rightarrow> real \<Rightarrow> real \<Rightarrow> app_state \<Rightarrow> app_state" where
  "set_report_coords rid la lo st =
     st\<lparr>reports := map (\<lambda>r. if report_id r = rid
                               then r\<lparr>latitude := Some la, longitude := Some lo\<rparr> else r)
                        (reports st)\<rparr>"

definition set_donation_coords :: "nat \<Rightarrow> real \<Rightarrow> real \<Rightarrow> app_state \<Rightarrow> app_state" where
  "set_donation_coords did la lo st =
     st\<lparr>donations := map (\<lambda>d. if donation_id d = did
                                 then d\<lparr>pickup_latitude := Some la, pickup_longitude := Some lo\<rparr>
                                 else d)
                          (donations st)\<rparr>"

section \<open>Strings\<close>

text \<open>\<open>str(n)\<close> for a non-negative integer.\<close>

fun str_nat :: "nat \<Rightarrow> string" where
  "str_nat n =
     (if n < 10 then [''0123456789'' ! n]
      else str_nat (n div 10) @ [''0123456789'' ! (n mod 10)])"

declare str_nat.simps [simp del]

definition zfill :: "nat \<Rightarrow> string \<Rightarrow> string" where
  "zfill w s = replicate (w - length s) CHR ''0'' @ s"

text \<open>
  \<open>t.strftime("%Y-%m")\<close> as the C library renders it: the year in decimal without
  padding (year 999 gives \<open>999-01\<close>, four digits from year 1000 on) and the month
  as two digits.
\<close>

definition strftime_Ym :: "datetime \<Rightarrow> string" where
  "strftime_Ym t = str_nat (year t) @ ''-'' @ zfill 2 (str_nat (month t))"

text \<open>\<open>str.lower\<close> on ASCII letters.\<close>

definition lower_char :: "char \<Rightarrow> char" where
  "lower_char c =
     (let n = (of_char c :: nat) in if 65 \<le> n \<and> n \<le> 90 then char_of (n + 32) else c)"

definition lower :: "string \<Rightarrow> string" where
  "lower s = map lower_char s"

section \<open>Upload validation\<close>

definition ALLOWED_EXTENSIONS :: "string set" where
  "ALLOWED_EXTENSIONS = {''png'', ''jpg'', ''jpeg'', ''gif''}"

text \<open>\<open>filename.rsplit('.', 1)[1]\<close>, read only when the name contains a dot.\<close>

definition rsplit_dot_1 :: "string \<Rightarrow> string" where
  "rsplit_dot_1 filename = rev (takeWhile (\<lambda>c. c \<noteq> CHR ''.'') (rev filename))"

definition allowed_file :: "string \<Rightarrow> bool" where
  "allowed_file filename \<longleftrightarrow>
     CHR ''.'' \<in> set filename \<and> lower (rsplit_dot_1 filename) \<in> ALLOWED_EXTENSIONS"

text \<open>
  \<open>werkzeug.utils.secure_filename\<close> on a POSIX host (\<open>os.sep = "/"\<close>, no \<open>altsep\<close>):
  after the Unicode normalisation and ASCII encoding \<open>to_ascii\<close> (a parameter: any
  function on strings), separators become blanks, the blank-separated words are joined
  with underscores, every character outside \<open>[A-Za-z0-9_.-]\<close> is dropped and leading and
  trailing dots and underscores are stripped.
\<close>

definition is_space :: "char \<Rightarrow> bool" where
  "is_space c \<longleftrightarrow> (of_char c :: nat) \<in> {9, 10, 11, 12, 13, 28, 29, 30, 31, 32}"

fun split_words :: "string \<Rightarrow> string \<Rightarrow> string list" where
  "split_words w [] = (if w = [] then [] else [w])"
| "split_words w (c # cs) =
     (if is_space c then (if w = [] then split_words [] cs else w # split_words [] cs)
      else split_words (w @ [c]) cs)"

fun join :: "string \<Rightarrow> string list \<Rightarrow> string" where
  "join sep [] = []"
| "join sep [w] = w"
| "join sep (w # v # ws) = w @ sep @ join sep (v # ws)"

definition filename_char :: "char \<Rightarrow> bool" where
  "filename_char c \<longleftrightarrow>
     (let n = (of_char c :: nat) in
        (65 \<le> n \<and> n \<le> 90) \<or> (97 \<le> n \<and> n \<le> 122) \<or> (48 \<le> n \<and> n \<le> 57)
        \<or> c = CHR ''_'' \<or> c = CHR ''.'' \<or> c = CHR ''-'')"

definition strip :: "string \<Rightarrow> string \<Rightarrow> string" where
  "strip chars s =
     rev (dropWhile (\<lambda>c. c \<in> set chars) (rev (dropWhile (\<lambda>c. c \<in> set chars) s)))"

definition secure_filename :: "(string \<Rightarrow> string) \<Rightarrow> string \<Rightarrow> string" where
  "secure_filename to_ascii filename =
     (let filename = to_ascii filename;
          filename = map (\<lambda>c. if c = CHR ''/'' then CHR '' '' else c) filename
      in strip ''._'' (filter filename_char (join ''_'' (split_words [] filename))))"

section \<open>Registration, login and the admin gate\<close>

text \<open>
  \<open>register\<close>. \<open>generate_password_hash\<close> is a parameter. A key missing from
  \<open>request.form\<close> raises \<open>BadRequestKeyError\<close>. Only the e-mail address is looked up
  before the INSERT.
\<close>

definition register ::
  "(string \<Rightarrow> string) \<Rightarrow> app_state \<Rightarrow> request \<Rightarrow> error + app_state \<times> unit response" where
  "register generate_password_hash st req =
     (if req_method req = POST then
        (case form req ''username'' of None \<Rightarrow> Inl (BadRequestKeyError ''username'') | Some uname \<Rightarrow>
        (case form req ''password'' of None \<Rightarrow> Inl (BadRequestKeyError ''password'') | Some pw \<Rightarrow>
        (case form req ''email'' of None \<Rightarrow> Inl (BadRequestKeyError ''email'') | Some mail \<Rightarrow>
        (case form req ''role'' of None \<Rightarrow> Inl (BadRequestKeyError ''role'') | Some rl \<Rightarrow>
          if find (\<lambda>u. email u = mail) (users st) \<noteq> None
          then Inr (st, Redirect ''register''
                          [''Email already registered. Please use a different email.''])
          else
            let new_user = \<lparr>user_id = next_id (map user_id (users st)), username = uname,
                            password = generate_password_hash pw, email = mail, role = rl,
                            points = 0\<rparr>
            in (case insert_user new_user st of
                  Inl e \<Rightarrow> Inl e
                | Inr st' \<Rightarrow> Inr (st', Redirect ''login'' [''Registration successful! Please login.'']))))))
      else Inr (st, Render ''register.html'' ()))"

text \<open>
  \<open>login\<close>, with \<open>check_password_hash\<close> a parameter; the result carries the new
  session (the logged-in user's id).
\<close>

definition login ::
  "(string \<Rightarrow> string \<Rightarrow> bool) \<Rightarrow> app_state \<Rightarrow> nat option \<Rightarrow> request
     \<Rightarrow> error + nat option \<times> unit response" where
  "login check_password_hash st session req =
     (if req_method req = POST then
        (case form req ''username'' of None \<Rightarrow> Inl (BadRequestKeyError ''username'') | Some uname \<Rightarrow>
        (case form req ''password'' of None \<Rightarrow> Inl (BadRequestKeyError ''password'') | Some pw \<Rightarrow>
          (case find (\<lambda>u. username u = uname) (users st) of
             Some u \<Rightarrow>
               if check_password_hash (password u) pw
               then Inr (Some (user_id u), Redirect ''dashboard'' [])
               else Inr (session, Redirect ''login'' [''Invalid username or password''])
           | None \<Rightarrow> Inr (session, Redirect ''login'' [''Invalid username or password'']))))
      else Inr (session, Render ''login.html'' ()))"

text \<open>What \<open>@login_required\<close> answers to a request without a logged-in user.\<close>

definition unauthorized :: "'a response" where
  "unauthorized = Redirect ''login'' [''Please log in to access this page.'']"

text \<open>
  \<open>create_event\<close>. \<open>strptime\<close> stands for
  \<open>datetime.strptime(\<cdot>, '%Y-%m-%dT%H:%M')\<close>, \<open>None\<close> for its \<open>ValueError\<close>.
\<close>

definition create_event ::
  "(string \<Rightarrow> datetime option) \<Rightarrow> app_state \<Rightarrow> nat option \<Rightarrow> request
     \<Rightarrow> error + app_state \<times> unit response" where
  "create_event strptime st session req =
     (case current_user st session of
        None \<Rightarrow> Inr (st, unauthorized)
      | Some cu \<Rightarrow>
          if role cu \<noteq> ''admin''
          then Inr (st, Redirect ''dashboard'' [''You are not authorized to create events.''])
          else if req_method req = POST then
            (case form req ''title'' of None \<Rightarrow> Inl (BadRequestKeyError ''title'') | Some ttl \<Rightarrow>
            (case form req ''description'' of None \<Rightarrow> Inl (BadRequestKeyError ''description'') | Some descr \<Rightarrow>
            (case form req ''event_time'' of None \<Rightarrow> Inl (BadRequestKeyError ''event_time'') | Some event_time_str \<Rightarrow>
            (case strptime event_time_str of None \<Rightarrow> Inl ValueError | Some etime \<Rightarrow>
            (case form req ''location'' of None \<Rightarrow> Inl (BadRequestKeyError ''location'') | Some loc \<Rightarrow>
              Inr (st\<lparr>events := events st @
                        [\<lparr>event_id = next_id (map event_id (events st)), title = ttl,
                          event_description = descr, event_time = etime,
                          event_location = loc\<rparr>]\<rparr>,
                   Redirect ''events'' [''Event created successfully!'']))))))
          else Inr (st, Render ''create_event.html'' ()))"

section \<open>Record intake\<close>

text \<open>\<open>add_donation\<close>; \<open>strptime\<close> as in \<open>create_event\<close>.\<close>

definition add_donation ::
  "(string \<Rightarrow> datetime option) \<Rightarrow> app_state \<Rightarrow> nat option \<Rightarrow> request
     \<Rightarrow> error + app_state \<times> unit response" where
  "add_donation strptime st session req =
     (case current_user st session of
        None \<Rightarrow> Inr (st, unauthorized)
      | Some cu \<Rightarrow>
          if req_method req = POST then
            (case form req ''description'' of None \<Rightarrow> Inl (BadRequestKeyError ''description'') | Some descr \<Rightarrow>
            (case form req ''food_type'' of None \<Rightarrow> Inl (BadRequestKeyError ''food_type'') | Some ftype \<Rightarrow>
            (case form req ''quantity'' of None \<Rightarrow> Inl (BadRequestKeyError ''quantity'') | Some qty \<Rightarrow>
            (case form req ''pickup_location'' of None \<Rightarrow> Inl (BadRequestKeyError ''pickup_location'') | Some ploc \<Rightarrow>
            (case form req ''pickup_time'' of None \<Rightarrow> Inl (BadRequestKeyError ''pickup_time'') | Some pickup_time_str \<Rightarrow>
            (case strptime pickup_time_str of None \<Rightarrow> Inl ValueError | Some ptime \<Rightarrow>
              let new_donation =
                    \<lparr>donation_id = next_id (map donation_id (donations st)), description = descr,
                     food_type = ftype, quantity = qty, pickup_location = ploc,
                     pickup_time = Some ptime, donor_id = user_id cu,
                     pickup_latitude = None, pickup_longitude = None\<rparr>;
                  st1 = st\<lparr>donations := donations st @ [new_donation]\<rparr>;
                  st2 = award_points cu 10 st1
              in Inr (st2, Redirect ''dashboard'' [''Donation added successfully!''])))))))
          else Inr (st, Render ''add_donation.html'' ()))"

text \<open>
  \<open>report_animal\<close>. \<open>now\<close> is the timestamp the database assigns to \<open>report_time\<close>
  (\<open>server_default=func.now()\<close>). A \<open>FileStorage\<close> is truthy when its filename is
  not empty.
\<close>

definition report_animal ::
  "(string \<Rightarrow> string) \<Rightarrow> datetime \<Rightarrow> app_state \<Rightarrow> nat option \<Rightarrow> request
     \<Rightarrow> error + app_state \<times> unit response" where
  "report_animal to_ascii now st session req =
     (case current_user st session of
        None \<Rightarrow> Inr (st, unauthorized)
      | Some cu \<Rightarrow>
          if req_method req = POST then
            (case form req ''animal_type'' of None \<Rightarrow> Inl (BadRequestKeyError ''animal_type'') | Some atype \<Rightarrow>
            (case form req ''description'' of None \<Rightarrow> Inl (BadRequestKeyError ''description'') | Some descr \<Rightarrow>
            (case form req ''location'' of None \<Rightarrow> Inl (BadRequestKeyError ''location'') | Some loc \<Rightarrow>
            (case form req ''contact'' of None \<Rightarrow> Inl (BadRequestKeyError ''contact'') | Some cont \<Rightarrow>
              let new_report =
                    \<lparr>report_id = next_id (map report_id (reports st)), animal_type = atype,
                     report_description = descr, location = loc, contact = cont,
                     report_time = Some now, reporter_id = user_id cu,
                     image_filename = None, latitude = None, longitude = None\<rparr>;
                  (new_report, st1) =
                    (case files req ''image'' of
                       None \<Rightarrow> (new_report, st)
                     | Some file_name \<Rightarrow>
                         if file_name \<noteq> [] \<and> allowed_file file_name
                         then let filename = secure_filename to_ascii file_name
                              in (new_report\<lparr>image_filename := Some filename\<rparr>,
                                  st\<lparr>uploads := uploads st @ [filename]\<rparr>)
                         else (new_report, st));
                  st2 = st1\<lparr>reports := reports st1 @ [new_report]\<rparr>;
                  st3 = award_points cu 5 st2
              in Inr (st3, Redirect ''dashboard'' [''Report submitted successfully!''])))))
          else Inr (st, Render ''report_animal.html'' ()))"

section \<open>Analytics: the month buckets of \<open>stats\<close>\<close>

text \<open>
  The dictionaries \<open>donation_data\<close> and \<open>report_data\<close> are association lists in
  insertion order; \<open>bump key data\<close> is \<open>data[key] = data.get(key, 0) + 1\<close>.
\<close>

definition bump :: "string \<Rightarrow> (string \<times> int) list \<Rightarrow> (string \<times> int) list" where
  "bump key data =
     AList.update key ((case map_of data key of None \<Rightarrow> 0 | Some c \<Rightarrow> c) + 1) data"

text \<open>\<open>d.pickup_time.strftime("%Y-%m") if d.pickup_time else "Unknown"\<close>\<close>

definition donation_key :: "donation \<Rightarrow> string" where
  "donation_key d = (case pickup_time d of Some t \<Rightarrow> strftime_Ym t | None \<Rightarrow> ''Unknown'')"

fun donation_data_loop :: "donation list \<Rightarrow> (string \<times> int) list \<Rightarrow> (string \<times> int) list" where
  "donation_data_loop [] data = data"
| "donation_data_loop (d # ds) data = donation_data_loop ds (bump (donation_key d) data)"

text \<open>\<open>r.report_time.strftime\<close> raises \<open>AttributeError\<close> on a missing timestamp.\<close>

fun report_data_loop :: "report list \<Rightarrow> (string \<times> int) list \<Rightarrow> error + (string \<times> int) list" where
  "report_data_loop [] data = Inr data"
| "report_data_loop (r # rs) data =
     (case report_time r of
        None \<Rightarrow> Inl AttributeError
      | Some t \<Rightarrow> report_data_loop rs (bump (strftime_Ym t) data))"

record chart =
  labels :: "string list"
  counts :: "int list"

text \<open>
  \<open>{'labels': sorted_keys, 'counts': [data[k] for k in sorted_keys]}\<close>, where
  \<open>data[k]\<close> raises \<open>KeyError\<close> on a key that is not in the dictionary.
\<close>

fun lookup_all :: "(string \<times> int) list \<Rightarrow> string list \<Rightarrow> error + int list" where
  "lookup_all data [] = Inr []"
| "lookup_all data (k # ks) =
     (case map_of data k of
        None \<Rightarrow> Inl (KeyError k)
      | Some c \<Rightarrow> (case lookup_all data ks of Inl e \<Rightarrow> Inl e | Inr cs \<Rightarrow> Inr (c # cs)))"

definition make_chart :: "(string \<times> int) list \<Rightarrow> error + chart" where
  "make_chart data =
     (let sorted_keys = sort (map fst data)
      in case lookup_all data sorted_keys of
           Inl e \<Rightarrow> Inl e
         | Inr cs \<Rightarrow> Inr \<lparr>labels = sorted_keys, counts = cs\<rparr>)"

record stats_page =
  donation_chart :: chart
  report_chart :: chart
  total_donations :: nat
  total_quantity :: real

text \<open>
  \<open>stats\<close>. The query \<open>db.session.query(db.func.sum(Donation.quantity)).scalar()\<close>
  runs in the database, before the charts are built: \<open>sum_quantity\<close> is a parameter
  that stands for it. It is given the stored \<open>quantity\<close> column and answers \<open>Inl\<close> when
  the query raises (SQLite raises \<open>OperationalError\<close> when an integer sum
  overflows), \<open>Inr None\<close> for SQL \<open>NULL\<close> and \<open>Inr (Some v)\<close> for a number;
  \<open>or 0\<close> turns \<open>None\<close> into 0.
\<close>

definition stats ::
  "(string list \<Rightarrow> error + real option) \<Rightarrow> app_state \<Rightarrow> nat option
     \<Rightarrow> error + stats_page response" where
  "stats sum_quantity st session =
     (case current_user st session of
        None \<Rightarrow> Inr unauthorized
      | Some cu \<Rightarrow>
          if role cu \<noteq> ''admin''
          then Inr (Redirect ''dashboard'' [''You are not authorized to view analytics.''])
          else
            (case sum_quantity (map quantity (donations st)) of Inl e \<Rightarrow> Inl e | Inr summed \<Rightarrow>
            (case make_chart (donation_data_loop (donations st) []) of Inl e \<Rightarrow> Inl e | Inr dchart \<Rightarrow>
            (case report_data_loop (reports st) [] of Inl e \<Rightarrow> Inl e | Inr report_data \<Rightarrow>
            (case make_chart report_data of Inl e \<Rightarrow> Inl e | Inr rchart \<Rightarrow>
              Inr (Render ''stats.html''
                     \<lparr>donation_chart = dchart, report_chart = rchart,
                      total_donations = length (donations st),
                      total_quantity = (case summed of None \<Rightarrow> 0 | Some v \<Rightarrow> v)\<rparr>))))))"

section \<open>Map views and the geocoding resolver\<close>

text \<open>
  The outcome of \<open>geolocator.geocode(address)\<close>: a location, \<open>None\<close>, or an
  exception. The provider is outside the program, so the resolver is a parameter: a
  function of the address and of the provider's own state \<open>'g\<close>, which it may change
  at every call.
\<close>

datatype geo_result = Located real real | No_match | Geo_error

type_synonym 'g geocoder = "string \<Rightarrow> 'g \<Rightarrow> geo_result \<times> 'g"

record marker =
  lat :: real
  lng :: real
  popup :: string

text \<open>
  SQL \<open>LIKE\<close>: \<open>%\<close> matches any run of characters and \<open>_\<close> any single one;
  \<open>ilike\<close> compares the lower-cased operands.
\<close>

fun like :: "string \<Rightarrow> string \<Rightarrow> bool" where
  "like [] [] = True"
| "like [] (c # cs) = False"
| "like (p # ps) [] = (p = CHR ''%'' \<and> like ps [])"
| "like (p # ps) (c # cs) =
     (if p = CHR ''%'' then like ps (c # cs) \<or> like (p # ps) cs
      else (p = CHR ''_'' \<or> p = c) \<and> like ps cs)"

definition ilike :: "string \<Rightarrow> string \<Rightarrow> bool" where
  "ilike pattern s = like (lower pattern) (lower s)"

text \<open>The popup of a report marker; \<open>url_for('report_details', report_id=n)\<close> is the path.\<close>

definition report_popup :: "report \<Rightarrow> string" where
  "report_popup report =
     ''<strong>'' @ animal_type report @ ''</strong><br>'' @ report_description report
     @ ''<br><em>'' @ location report @ ''</em><br><a href='' @ [CHR 0x27]
     @ ''/report_details/'' @ str_nat (report_id report) @ [CHR 0x27]
     @ '' target='' @ [CHR 0x27] @ ''_blank'' @ [CHR 0x27] @ ''>View Details</a>''"

definition donation_popup :: "donation \<Rightarrow> string" where
  "donation_popup donation = ''Donation: '' @ description donation"

text \<open>
  The body of the loop of \<open>map_view\<close> up to the marker: the coordinates of one report,
  the resolver's new state and the store after the commit. \<open>time.sleep\<close> and the log
  lines have no counterpart.
\<close>

definition report_lat_lng ::
  "'g geocoder \<Rightarrow> report \<Rightarrow> 'g \<Rightarrow> app_state \<Rightarrow> real \<times> real \<times> 'g \<times> app_state" where
  "report_lat_lng geocode report g st =
     (if latitude report \<noteq> None \<and> longitude report \<noteq> None
      then (the (latitude report), the (longitude report), g, st)
      else (case geocode (location report) g of
              (Located la lo, g') \<Rightarrow> (la, lo, g', set_report_coords (report_id report) la lo st)
            | (No_match, g') \<Rightarrow> (12.9716, 77.5946, g', st)
            | (Geo_error, g') \<Rightarrow> (12.9716, 77.5946, g', st)))"

fun map_view_loop ::
  "'g geocoder \<Rightarrow> report list \<Rightarrow> 'g \<Rightarrow> app_state \<Rightarrow> marker list \<Rightarrow> (real \<times> real \<times> int) list
     \<Rightarrow> 'g \<times> app_state \<times> marker list \<times> (real \<times> real \<times> int) list" where
  "map_view_loop geocode [] g st markers heat_data = (g, st, markers, heat_data)"
| "map_view_loop geocode (report # rest) g st markers heat_data =
     (case report_lat_lng geocode report g st of
        (la, lo, g', st') \<Rightarrow>
          map_view_loop geocode rest g' st'
            (markers @ [\<lparr>lat = la, lng = lo, popup = report_popup report\<rparr>])
            (heat_data @ [(la, lo, 1)]))"

record map_page =
  page_markers :: "marker list"
  distinct_animals :: "string list"
  selected_animal :: string
  page_heat_data :: "(real \<times> real \<times> int) list"

text \<open>
  \<open>map_view\<close>: the reports, filtered by \<open>animal_type\<close> when the query string asks
  for it, are geocoded where they lack coordinates. The result is the resolver's state,
  the store and the response.
\<close>

definition animal_filter :: "request \<Rightarrow> string" where
  "animal_filter req = (case args req ''animal_type'' of None \<Rightarrow> [] | Some a \<Rightarrow> a)"

definition reports_all :: "app_state \<Rightarrow> request \<Rightarrow> report list" where
  "reports_all st req =
     (if animal_filter req \<noteq> []
      then filter (\<lambda>r. ilike (''%'' @ animal_filter req @ ''%'') (animal_type r)) (reports st)
      else reports st)"

definition map_view ::
  "'g geocoder \<Rightarrow> 'g \<Rightarrow> app_state \<Rightarrow> nat option \<Rightarrow> request
     \<Rightarrow> 'g \<times> app_state \<times> map_page response" where
  "map_view geocode g st session req =
     (case current_user st session of
        None \<Rightarrow> (g, st, unauthorized)
      | Some cu \<Rightarrow>
          (case map_view_loop geocode (reports_all st req) g st [] [] of
             (g', st', markers, heat_data) \<Rightarrow>
               (g', st', Render ''map.html''
                  \<lparr>page_markers = markers,
                   distinct_animals = remdups (map animal_type (reports st)),
                   selected_animal = animal_filter req, page_heat_data = heat_data\<rparr>)))"

text \<open>
  The loop of \<open>donation_map\<close>: a donation the resolver does not locate is passed over
  (\<open>continue\<close>), whether the resolver found nothing or raised.
\<close>

fun donation_map_loop ::
  "'g geocoder \<Rightarrow> donation list \<Rightarrow> 'g \<Rightarrow> app_state \<Rightarrow> marker list
     \<Rightarrow> 'g \<times> app_state \<times> marker list" where
  "donation_map_loop geocode [] g st markers = (g, st, markers)"
| "donation_map_loop geocode (donation # rest) g st markers =
     (if pickup_latitude donation \<noteq> None \<and> pickup_longitude donation \<noteq> None
      then donation_map_loop geocode rest g st
             (markers @ [\<lparr>lat = the (pickup_latitude donation),
                           lng = the (pickup_longitude donation),
                           popup = donation_popup donation\<rparr>])
      else (case geocode (pickup_location donation) g of
              (Located la lo, g') \<Rightarrow>
                donation_map_loop geocode rest g'
                  (set_donation_coords (donation_id donation) la lo st)
                  (markers @ [\<lparr>lat = la, lng = lo, popup = donation_popup donation\<rparr>])
            | (No_match, g') \<Rightarrow> donation_map_loop geocode rest g' st markers
            | (Geo_error, g') \<Rightarrow> donation_map_loop geocode rest g' st markers))"

definition donation_map ::
  "'g geocoder \<Rightarrow> 'g \<Rightarrow> app_state \<Rightarrow> nat option \<Rightarrow> 'g \<times> app_state \<times> marker list response" where
  "donation_map geocode g st session =
     (case current_user st session of
        None \<Rightarrow> (g, st, unauthorized)
      | Some cu \<Rightarrow>
          (case donation_map_loop geocode (donations st) g st [] of
             (g', st', markers) \<Rightarrow> (g', st', Render ''donation_map.html'' markers)))"


section \<open>The aggregation as the specification words it\<close>

text \<open>
  \<open>aggregate_by_month\<close> of the specification, on the bucket keys of the records: the
  distinct keys in ascending order, and for each the number of records that carry it.
\<close>

definition aggregate_by_month :: "string list \<Rightarrow> chart" where
  "aggregate_by_month keys =
     (let ls = sort (remdups keys)
      in \<lparr>labels = ls, counts = map (\<lambda>k. int (count_list keys k)) ls\<rparr>)"

section \<open>One iteration of the donation loop\<close>

text \<open>
  What one pass through the body of the loop of \<open>donation_map\<close> contributes: the markers
  appended (none after a \<open>continue\<close>), the resolver's state and the store. The loop is
  shown below to be the iteration of this step.
\<close>

definition donation_step ::
  "'g geocoder \<Rightarrow> donation \<Rightarrow> 'g \<Rightarrow> app_state \<Rightarrow> marker list \<times> 'g \<times> app_state" where
  "donation_step geocode d g st =
     (if pickup_latitude d \<noteq> None \<and> pickup_longitude d \<noteq> None
      then ([\<lparr>lat = the (pickup_latitude d), lng = the (pickup_longitude d),
              popup = donation_popup d\<rparr>], g, st)
      else (case geocode (pickup_location d) g of
              (Located la lo, g') \<Rightarrow>
                ([\<lparr>lat = la, lng = lo, popup = donation_popup d\<rparr>], g',
                 set_donation_coords (donation_id d) la lo st)
            | (No_match, g') \<Rightarrow> ([], g', st)
            | (Geo_error, g') \<Rightarrow> ([], g', st)))"

section \<open>Concrete stores, requests and collaborators for the examples\<close>

text \<open>
  The examples below instantiate the theorems: small stores, the requests sent to
  them, and one instance of each collaborator that the handlers take as a parameter.
\<close>

definition example_admin :: user where
  "example_admin = \<lparr>user_id = 1, username = ''asha'', password = ''pbkdf2'', email = ''asha@example.org'',
                     role = ''admin'', points = 0\<rparr>"

definition example_time :: "nat \<Rightarrow> nat \<Rightarrow> datetime" where
  "example_time y m = \<lparr>year = y, month = m, day = 1, hour = 10, minute = 0, second = 0\<rparr>"

text \<open>
  An instance of \<open>sum_quantity\<close> for the examples, for quantities written as decimal
  numerals below \<open>2 ^ 63\<close> (SQLite stores those as integers): no rows give \<open>NULL\<close>,
  and a sum that leaves the 64-bit range raises.
\<close>

definition digits_value :: "string \<Rightarrow> nat" where
  "digits_value s = foldl (\<lambda>n c. 10 * n + (of_char c - 48)) 0 s"

definition example_sum :: "string list \<Rightarrow> error + real option" where
  "example_sum qs =
     (if qs = [] then Inr None
      else if sum_list (map digits_value qs) < 2 ^ 63
      then Inr (Some (real (sum_list (map digits_value qs))))
      else Inl OperationalError)"

definition dated_donation :: "nat \<Rightarrow> datetime option \<Rightarrow> donation" where
  "dated_donation n t =
     \<lparr>donation_id = n, description = ''rice'', food_type = ''dry'', quantity = ''5'',
      pickup_location = ''MG Road'', pickup_time = t, donor_id = 1,
      pickup_latitude = None, pickup_longitude = None\<rparr>"

definition dated_report :: "nat \<Rightarrow> datetime option \<Rightarrow> report" where
  "dated_report n t =
     \<lparr>report_id = n, animal_type = ''dog'', report_description = ''injured'', location = ''Indiranagar'',
      contact = ''080'', report_time = t, reporter_id = 1, image_filename = None,
      latitude = None, longitude = None\<rparr>"

definition stats_example :: app_state where
  "stats_example =
     \<lparr>users = [example_admin],
      donations = [dated_donation 1 (Some (example_time 2024 3)), dated_donation 2 (Some (example_time 2024 1)),
                   dated_donation 3 None, dated_donation 4 (Some (example_time 2024 1))],
      reports = [dated_report 1 (Some (example_time 2024 2)), dated_report 2 (Some (example_time 2023 12))],
      events = [], uploads = []\<rparr>"


definition example_user :: user where
  "example_user = \<lparr>user_id = 2, username = ''ravi'', password = ''pbkdf2'', email = ''ravi@example.org'',
                    role = ''volunteer'', points = 0\<rparr>"

definition example_report :: "nat \<Rightarrow> string \<Rightarrow> real option \<Rightarrow> real option \<Rightarrow> report" where
  "example_report n address la lo =
     \<lparr>report_id = n, animal_type = ''dog'', report_description = ''injured'', location = address,
      contact = ''080'', report_time = None, reporter_id = 2, image_filename = None,
      latitude = la, longitude = lo\<rparr>"

definition example_donation :: "nat \<Rightarrow> string \<Rightarrow> real option \<Rightarrow> real option \<Rightarrow> donation" where
  "example_donation n address la lo =
     \<lparr>donation_id = n, description = ''rice'', food_type = ''dry'', quantity = ''5'',
      pickup_location = address, pickup_time = None, donor_id = 2,
      pickup_latitude = la, pickup_longitude = lo\<rparr>"

text \<open>
  A resolver for the examples: it locates one address, raises for another and finds
  nothing for the rest; its state counts the calls.
\<close>

definition example_geocoder :: "nat geocoder" where
  "example_geocoder address n =
     (if address = ''Koramangala'' then Located 12.9352 77.6245
      else if address = ''offline'' then Geo_error
      else No_match, Suc n)"

definition example_get :: request where
  "example_get = \<lparr>req_method = GET, form = Map.empty, args = Map.empty, files = Map.empty\<rparr>"


definition unmatched_example :: app_state where
  "unmatched_example =
     \<lparr>users = [example_user],
      donations = [example_donation 1 ''MG Road'' (Some 12.9756) (Some 77.6050),
                   example_donation 2 ''nowhere'' None None,
                   example_donation 3 ''Koramangala'' None None],
      reports = [example_report 1 ''MG Road'' (Some 12.9756) (Some 77.6050),
                 example_report 2 ''nowhere'' None None,
                 example_report 3 ''Koramangala'' None None],
      events = [], uploads = []\<rparr>"


definition lone_unmatched_example :: app_state where
  "lone_unmatched_example =
     \<lparr>users = [example_user],
      donations = [example_donation 1 ''nowhere'' None None],
      reports = [], events = [], uploads = []\<rparr>"

text \<open>
  An instance of \<open>strptime\<close> for the examples. It is only applied to the two strings
  the example requests submit: \<open>2024-06-01T10:00\<close>, which
  \<open>datetime.strptime(\<cdot>, '%Y-%m-%dT%H:%M')\<close> parses to this value, and \<open>tomorrow\<close>,
  which it rejects.
\<close>

definition example_strptime :: "string \<Rightarrow> datetime option" where
  "example_strptime s =
     (if s = ''2024-06-01T10:00''
      then Some \<lparr>year = 2024, month = 6, day = 1, hour = 10, minute = 0, second = 0\<rparr>
      else None)"

definition donation_post :: request where
  "donation_post =
     \<lparr>req_method = POST,
      form = map_of [(''description'', ''rice''), (''food_type'', ''dry''), (''quantity'', ''5''),
                     (''pickup_location'', ''X''), (''pickup_time'', ''2024-06-01T10:00'')],
      args = map_of [], files = map_of []\<rparr>"

definition report_post :: "string \<Rightarrow> request" where
  "report_post file_name =
     \<lparr>req_method = POST,
      form = map_of [(''animal_type'', ''dog''), (''description'', ''limping''),
                     (''location'', ''Indiranagar''), (''contact'', ''080'')],
      args = map_of [], files = map_of [(''image'', file_name)]\<rparr>"

definition intake_example :: app_state where
  "intake_example =
     \<lparr>users = [example_admin, example_user],
      donations = [example_donation 1 ''MG Road'' None None],
      reports = [example_report 1 ''MG Road'' None None],
      events = [], uploads = []\<rparr>"

definition example_now :: datetime where
  "example_now = \<lparr>year = 2024, month = 6, day = 2, hour = 9, minute = 30, second = 15\<rparr>"




text \<open>
  An instance of \<open>generate_password_hash\<close> and \<open>check_password_hash\<close> for the
  examples, in which the check accepts exactly the password that was hashed.
\<close>

definition example_hash :: "string \<Rightarrow> string" where
  "example_hash pw = ''pbkdf2:sha256$'' @ pw"

definition example_check :: "string \<Rightarrow> string \<Rightarrow> bool" where
  "example_check pwhash pw \<longleftrightarrow> pwhash = example_hash pw"

definition register_post :: "string \<Rightarrow> string \<Rightarrow> string \<Rightarrow> request" where
  "register_post uname mail rl =
     \<lparr>req_method = POST,
      form = map_of [(''username'', uname), (''password'', ''secret''), (''email'', mail), (''role'', rl)],
      args = map_of [], files = map_of []\<rparr>"

definition login_post :: "string \<Rightarrow> request" where
  "login_post uname =
     \<lparr>req_method = POST,
      form = map_of [(''username'', uname), (''password'', ''secret'')],
      args = map_of [], files = map_of []\<rparr>"

definition volunteers_example :: app_state where
  "volunteers_example =
     \<lparr>users = [example_user], donations = [], reports = [], events = [], uploads = []\<rparr>"

section \<open>Lemmas on the month buckets\<close>

lemma bump_keys: "map fst (bump k data) = (if k \<in> fst ` set data then map fst data else map fst data @ [k])"
  unfolding bump_def by (induction data) auto

lemma bump_distinct: "distinct (map fst data) \<Longrightarrow> distinct (map fst (bump k data))"
  by (simp add: bump_keys)

lemma bump_map_of:
  "map_of (bump k data) k' =
     (if k' = k then Some ((case map_of data k of None \<Rightarrow> 0 | Some c \<Rightarrow> c) + 1) else map_of data k')"
  by (simp add: bump_def update_conv')

lemma bump_key_set: "set (map fst (bump k data)) = insert k (set (map fst data))"
  unfolding bump_keys by auto

lemma map_of_in_keys: "k \<in> set (map fst data) \<Longrightarrow> \<exists>c. map_of data k = Some c"
  using map_of_eq_None_iff[of data k] by (cases "map_of data k") auto

lemma fold_bump_keys: "set (map fst (fold bump ks data)) = set (map fst data) \<union> set ks"
proof (induction ks arbitrary: data)
  case Nil show ?case by simp
next
  case (Cons a ks)
  have "set (map fst (fold bump (a # ks) data)) = set (map fst (bump a data)) \<union> set ks"
    using Cons.IH[of "bump a data"] by simp
  then show ?case unfolding bump_key_set by auto
qed

lemma fold_bump_distinct: "distinct (map fst data) \<Longrightarrow> distinct (map fst (fold bump ks data))"
  by (induction ks arbitrary: data) (auto simp: bump_distinct)

lemma fold_bump_map_of:
  "k \<in> set (map fst data) \<union> set ks \<Longrightarrow>
   map_of (fold bump ks data) k = Some ((case map_of data k of None \<Rightarrow> 0 | Some c \<Rightarrow> c) + int (count_list ks k))"
proof (induction ks arbitrary: data)
  case Nil
  then obtain c where "map_of data k = Some c"
    using map_of_in_keys[of k data] by auto
  then show ?case by simp
next
  case (Cons a ks)
  have "k \<in> set (map fst (bump a data)) \<union> set ks"
    using Cons.prems unfolding bump_key_set by auto
  from Cons.IH[OF this] show ?case
    by (simp add: bump_map_of)
qed

lemma lookup_all_total:
  "set ks \<subseteq> set (map fst data) \<Longrightarrow> lookup_all data ks = Inr (map (\<lambda>k. the (map_of data k)) ks)"
proof (induction ks)
  case Nil show ?case by simp
next
  case (Cons k ks)
  then obtain c where "map_of data k = Some c"
    using map_of_in_keys[of k data] by auto
  with Cons show ?case by simp
qed

lemma make_chart_fold_bump:
  "make_chart (fold bump ks []) = Inr (aggregate_by_month ks)"
proof -
  let ?data = "fold bump ks []"
  have keys: "set (map fst ?data) = set ks" using fold_bump_keys[of ks "[]"] by simp
  have dist: "distinct (map fst ?data)" by (rule fold_bump_distinct) simp
  have "sort (map fst ?data) = sort (remdups ks)"
    by (rule sorted_distinct_set_unique) (use keys dist in auto)
  moreover have "lookup_all ?data (sort (remdups ks)) = Inr (map (\<lambda>k. the (map_of ?data k)) (sort (remdups ks)))"
    by (rule lookup_all_total) (use keys in auto)
  moreover have "map (\<lambda>k. the (map_of ?data k)) (sort (remdups ks)) = map (\<lambda>k. int (count_list ks k)) (sort (remdups ks))"
    by (rule map_cong[OF refl]) (simp add: fold_bump_map_of)
  ultimately show ?thesis
    by (simp add: make_chart_def aggregate_by_month_def Let_def)
qed

lemma donation_data_loop_fold: "donation_data_loop ds data = fold bump (map donation_key ds) data"
  by (induction ds arbitrary: data) auto

lemma report_data_loop_fold:
  "\<forall>r \<in> set rs. report_time r \<noteq> None \<Longrightarrow>
   report_data_loop rs data = Inr (fold bump (map (\<lambda>r. strftime_Ym (the (report_time r))) rs) data)"
  by (induction rs arbitrary: data) auto

lemma report_data_loop_error:
  "\<exists>r \<in> set rs. report_time r = None \<Longrightarrow> report_data_loop rs data = Inl AttributeError"
  by (induction rs arbitrary: data) (auto split: option.splits)

lemma str_nat_digits: "set (str_nat n) \<subseteq> set ''0123456789''"
proof (induction n rule: str_nat.induct)
  case (1 n)
  have d: "\<And>k. k < 10 \<Longrightarrow> ''0123456789'' ! k \<in> set ''0123456789''"
    by (rule nth_mem) simp
  show ?case
  proof (cases "n < 10")
    case True
    then show ?thesis using d[of n] by (subst str_nat.simps) simp
  next
    case False
    have "n mod 10 < 10" by simp
    with False 1 d[of "n mod 10"] show ?thesis by (subst str_nat.simps) simp
  qed
qed

lemma str_nat_nonempty: "str_nat n \<noteq> []"
  by (subst str_nat.simps) simp

lemma strftime_Ym_not_Unknown: "strftime_Ym t \<noteq> ''Unknown''"
proof -
  have "hd (strftime_Ym t) = hd (str_nat (year t))"
    using str_nat_nonempty[of "year t"] by (simp add: strftime_Ym_def)
  moreover have "hd (str_nat (year t)) \<in> set (str_nat (year t))"
    using str_nat_nonempty by simp
  ultimately have "hd (strftime_Ym t) \<in> set ''0123456789''"
    using str_nat_digits by auto
  then show ?thesis by auto
qed

lemma strftime_Ym_2024_01: "year t = 2024 \<Longrightarrow> month t = 1 \<Longrightarrow> strftime_Ym t = ''2024-01''"
  by (simp add: strftime_Ym_def zfill_def str_nat.simps)

lemma strftime_Ym_2024_03: "year t = 2024 \<Longrightarrow> month t = 3 \<Longrightarrow> strftime_Ym t = ''2024-03''"
  by (simp add: strftime_Ym_def zfill_def str_nat.simps)

lemma str_nat_length_4: "1000 \<le> n \<Longrightarrow> n \<le> 9999 \<Longrightarrow> length (str_nat n) = 4"
proof -
  assume n: "1000 \<le> n" "n \<le> 9999"
  have a: "n div 10 div 10 div 10 < 10" "\<not> n div 10 div 10 < 10" "\<not> n div 10 < 10" "\<not> n < 10"
    using n by simp_all
  have "length (str_nat (n div 10 div 10 div 10)) = 1"
    using a(1) by (subst str_nat.simps) simp
  then have "length (str_nat (n div 10 div 10)) = 2"
    using a(2) by (subst str_nat.simps) simp
  then have "length (str_nat (n div 10)) = 3"
    using a(3) by (subst str_nat.simps) simp
  then show ?thesis
    using a(4) by (subst str_nat.simps) simp
qed

lemma zfill_2_month:
  "1 \<le> m \<Longrightarrow> m \<le> 12 \<Longrightarrow> length (zfill 2 (str_nat m)) = 2 \<and> set (zfill 2 (str_nat m)) \<subseteq> set ''0123456789''"
proof -
  assume m: "1 \<le> m" "m \<le> 12"
  have len: "length (str_nat m) = (if m < 10 then 1 else 2)"
  proof (cases "m < 10")
    case True then show ?thesis by (subst str_nat.simps) simp
  next
    case False
    then have "m div 10 < 10" using m by simp
    then have "length (str_nat (m div 10)) = 1" by (subst str_nat.simps) simp
    then show ?thesis using False by (subst str_nat.simps) simp
  qed
  have "set (zfill 2 (str_nat m)) \<subseteq> insert CHR ''0'' (set (str_nat m))"
    by (auto simp: zfill_def)
  then show ?thesis using len str_nat_digits[of m] by (auto simp: zfill_def)
qed

lemma strftime_Ym_shape:
  assumes "1000 \<le> year t \<and> year t \<le> 9999 \<and> 1 \<le> month t \<and> month t \<le> 12"
  shows "length (strftime_Ym t) = 7 \<and> strftime_Ym t ! 4 = CHR ''-''
        \<and> set (take 4 (strftime_Ym t)) \<subseteq> set ''0123456789''
        \<and> set (drop 5 (strftime_Ym t)) \<subseteq> set ''0123456789''"
proof -
  have y: "length (str_nat (year t)) = 4" using assms by (simp add: str_nat_length_4)
  have m: "length (zfill 2 (str_nat (month t))) = 2"
    "set (zfill 2 (str_nat (month t))) \<subseteq> set ''0123456789''"
    using assms zfill_2_month[of "month t"] by simp_all
  have "take 4 (strftime_Ym t) = str_nat (year t)" using y by (simp add: strftime_Ym_def)
  moreover have "drop 5 (strftime_Ym t) = zfill 2 (str_nat (month t))"
    using y by (simp add: strftime_Ym_def)
  moreover have "strftime_Ym t ! 4 = CHR ''-''"
    using y by (simp add: strftime_Ym_def nth_append)
  moreover have "length (strftime_Ym t) = 7" using y m(1) by (simp add: strftime_Ym_def)
  ultimately show ?thesis using str_nat_digits[of "year t"] m(2) by simp
qed

lemma strftime_Ym_999_01: "year t = 999 \<Longrightarrow> month t = 1 \<Longrightarrow> strftime_Ym t = ''999-01''"
  by (simp add: strftime_Ym_def zfill_def str_nat.simps)

lemma aggregate_by_month_props:
  "sorted (labels (aggregate_by_month ks)) \<and> distinct (labels (aggregate_by_month ks))
   \<and> set (labels (aggregate_by_month ks)) = set ks
   \<and> counts (aggregate_by_month ks) = map (\<lambda>k. int (count_list ks k)) (labels (aggregate_by_month ks))"
  by (simp add: aggregate_by_month_def Let_def)

lemma make_chart_donations:
  "make_chart (donation_data_loop ds []) = Inr (aggregate_by_month (map donation_key ds))"
  by (simp add: donation_data_loop_fold make_chart_fold_bump)

lemma stats_admin:
  assumes "current_user st session = Some cu" "role cu = ''admin''"
    and "\<forall>r \<in> set (reports st). report_time r \<noteq> None"
    and "sum_quantity (map quantity (donations st)) = Inr summed"
  shows "stats sum_quantity st session = Inr (Render ''stats.html''
           \<lparr>donation_chart = aggregate_by_month (map donation_key (donations st)),
            report_chart = aggregate_by_month (map (\<lambda>r. strftime_Ym (the (report_time r))) (reports st)),
            total_donations = length (donations st),
            total_quantity = (case summed of None \<Rightarrow> 0 | Some v \<Rightarrow> v)\<rparr>)"
  using assms
  by (simp add: stats_def make_chart_donations report_data_loop_fold make_chart_fold_bump)

lemma stats_sum_raises:
  assumes "current_user st session = Some cu" "role cu = ''admin''"
    and "sum_quantity (map quantity (donations st)) = Inl e"
  shows "stats sum_quantity st session = Inl e"
  using assms by (simp add: stats_def)

lemma stats_report_raises:
  assumes "current_user st session = Some cu" "role cu = ''admin''"
    and "sum_quantity (map quantity (donations st)) = Inr summed"
    and "\<exists>r \<in> set (reports st). report_time r = None"
  shows "stats sum_quantity st session = Inl AttributeError"
  using assms by (simp add: stats_def make_chart_donations report_data_loop_error)

lemma example_2024:
  assumes "pickup_time d1 = Some t1" "year t1 = 2024" "month t1 = 1"
    and "pickup_time d2 = Some t2" "year t2 = 2024" "month t2 = 1"
    and "pickup_time d3 = Some t3" "year t3 = 2024" "month t3 = 3"
  shows "make_chart (donation_data_loop [d1, d2, d3] []) = Inr \<lparr>labels = [''2024-01'', ''2024-03''], counts = [2, 1]\<rparr>"
proof -
  have "donation_key d1 = ''2024-01''" "donation_key d2 = ''2024-01''" "donation_key d3 = ''2024-03''"
    using assms by (simp_all add: donation_key_def strftime_Ym_2024_01 strftime_Ym_2024_03)
  then show ?thesis
    by (simp add: make_chart_def bump_def)
qed

section \<open>Lemmas on the map loops\<close>

lemma map_view_loop_acc:
  "map_view_loop geocode rs g st ms hs =
     (case map_view_loop geocode rs g st [] [] of
        (g', st', new, hnew) \<Rightarrow> (g', st', ms @ new, hs @ hnew))"
proof (induction rs arbitrary: g st ms hs)
  case Nil show ?case by simp
next
  case (Cons r rs)
  obtain la lo g1 st1 where step: "report_lat_lng geocode r g st = (la, lo, g1, st1)"
    by (cases "report_lat_lng geocode r g st") auto
  let ?m = "\<lparr>lat = la, lng = lo, popup = report_popup r\<rparr>"
  obtain g2 st2 new hnew where rest: "map_view_loop geocode rs g1 st1 [] [] = (g2, st2, new, hnew)"
    by (cases "map_view_loop geocode rs g1 st1 [] []") auto
  have a: "map_view_loop geocode rs g1 st1 (ms @ [?m]) (hs @ [(la, lo, 1)])
        = (g2, st2, (ms @ [?m]) @ new, (hs @ [(la, lo, 1)]) @ hnew)"
    using Cons.IH[of g1 st1 "ms @ [?m]" "hs @ [(la, lo, 1)]"] rest by simp
  have b: "map_view_loop geocode rs g1 st1 [?m] [(la, lo, 1)] = (g2, st2, [?m] @ new, [(la, lo, 1)] @ hnew)"
    using Cons.IH[of g1 st1 "[?m]" "[(la, lo, 1)]"] rest by simp
  show ?case using step a b by simp
qed

lemma map_view_loop_Cons:
  "map_view_loop geocode (r # rs) g st [] [] =
     (case report_lat_lng geocode r g st of
        (la, lo, g1, st1) \<Rightarrow>
          (case map_view_loop geocode rs g1 st1 [] [] of
             (g', st', new, hnew) \<Rightarrow>
               (g', st', \<lparr>lat = la, lng = lo, popup = report_popup r\<rparr> # new, (la, lo, 1) # hnew)))"
proof -
  obtain la lo g1 st1 where step: "report_lat_lng geocode r g st = (la, lo, g1, st1)"
    by (cases "report_lat_lng geocode r g st") auto
  show ?thesis
    using step
      map_view_loop_acc[of geocode rs g1 st1 "[\<lparr>lat = la, lng = lo, popup = report_popup r\<rparr>]" "[(la, lo, 1)]"]
    by (simp split: prod.splits)
qed

lemma map_view_loop_append:
  "map_view_loop geocode (rs1 @ rs2) g st ms hs =
     (case map_view_loop geocode rs1 g st ms hs of
        (g1, st1, ms1, hs1) \<Rightarrow> map_view_loop geocode rs2 g1 st1 ms1 hs1)"
  by (induction rs1 arbitrary: g st ms hs) (auto split: prod.splits)

lemma map_view_loop_popups:
  "map_view_loop geocode rs g st [] [] = (g', st', new, hnew) \<Longrightarrow>
   map popup new = map report_popup rs \<and> hnew = map (\<lambda>m. (lat m, lng m, 1)) new"
proof (induction rs arbitrary: g st g' st' new hnew)
  case Nil then show ?case by simp
next
  case (Cons r rs)
  obtain la lo g1 st1 where step: "report_lat_lng geocode r g st = (la, lo, g1, st1)"
    by (cases "report_lat_lng geocode r g st") auto
  obtain g2 st2 new2 hnew2 where rest: "map_view_loop geocode rs g1 st1 [] [] = (g2, st2, new2, hnew2)"
    by (cases "map_view_loop geocode rs g1 st1 [] []") auto
  from Cons.IH[OF rest] Cons.prems step rest show ?case
    by (auto simp: map_view_loop_Cons simp del: map_view_loop.simps)
qed


lemma report_lat_lng_cases:
  assumes "latitude r = None \<or> longitude r = None"
  shows "report_lat_lng geocode r g st =
     (case fst (geocode (location r) g) of
        Located la lo \<Rightarrow> (la, lo, snd (geocode (location r) g), set_report_coords (report_id r) la lo st)
      | No_match \<Rightarrow> (12.9716, 77.5946, snd (geocode (location r) g), st)
      | Geo_error \<Rightarrow> (12.9716, 77.5946, snd (geocode (location r) g), st))"
  using assms
  by (cases "geocode (location r) g") (auto simp: report_lat_lng_def split: geo_result.splits)



lemma map_view_loop_nth:
  "map_view_loop geocode rs g st [] [] = (g', st', new, hnew) \<Longrightarrow> i < length rs \<Longrightarrow>
   length new = length rs \<and>
   (\<exists>gi sti la lo g2 st2. report_lat_lng geocode (rs ! i) gi sti = (la, lo, g2, st2)
      \<and> new ! i = \<lparr>lat = la, lng = lo, popup = report_popup (rs ! i)\<rparr>)"
proof (induction rs arbitrary: g st g' st' new hnew i)
  case Nil then show ?case by simp
next
  case (Cons r rs)
  obtain la lo g1 st1 where step: "report_lat_lng geocode r g st = (la, lo, g1, st1)"
    by (cases "report_lat_lng geocode r g st") auto
  obtain g2 st2 new2 hnew2 where rest: "map_view_loop geocode rs g1 st1 [] [] = (g2, st2, new2, hnew2)"
    by (cases "map_view_loop geocode rs g1 st1 [] []") auto
  have new: "new = \<lparr>lat = la, lng = lo, popup = report_popup r\<rparr> # new2"
    using Cons.prems(1) step rest by (simp add: map_view_loop_Cons del: map_view_loop.simps)
  have len: "length new2 = length rs"
    using map_view_loop_popups[OF rest] by (metis length_map)
  show ?case
  proof (cases i)
    case 0
    then show ?thesis using new step len by auto
  next
    case (Suc k)
    then have "k < length rs" using Cons.prems(2) by simp
    from Cons.IH[OF rest this] show ?thesis using new Suc len by auto
  qed
qed








lemma donation_map_loop_step:
  "donation_map_loop geocode (d # ds) g st ms =
     (case donation_step geocode d g st of
        (new, g1, st1) \<Rightarrow> donation_map_loop geocode ds g1 st1 (ms @ new))"
  by (cases "geocode (pickup_location d) g")
     (auto simp: donation_step_def split: geo_result.splits)

lemma donation_step_stored:
  "pickup_latitude d \<noteq> None \<Longrightarrow> pickup_longitude d \<noteq> None \<Longrightarrow>
   donation_step geocode d g st =
     ([\<lparr>lat = the (pickup_latitude d), lng = the (pickup_longitude d), popup = donation_popup d\<rparr>], g, st)"
  by (simp add: donation_step_def)

lemma donation_step_cases:
  assumes "pickup_latitude d = None \<or> pickup_longitude d = None"
  shows "donation_step geocode d g st =
     (case fst (geocode (pickup_location d) g) of
        Located la lo \<Rightarrow> ([\<lparr>lat = la, lng = lo, popup = donation_popup d\<rparr>],
                          snd (geocode (pickup_location d) g),
                          set_donation_coords (donation_id d) la lo st)
      | No_match \<Rightarrow> ([], snd (geocode (pickup_location d) g), st)
      | Geo_error \<Rightarrow> ([], snd (geocode (pickup_location d) g), st))"
  using assms
  by (cases "geocode (pickup_location d) g") (auto simp: donation_step_def split: geo_result.splits)


lemma donation_map_loop_append:
  "donation_map_loop geocode (ds1 @ ds2) g st ms =
     (case donation_map_loop geocode ds1 g st ms of
        (g1, st1, ms1) \<Rightarrow> donation_map_loop geocode ds2 g1 st1 ms1)"
proof (induction ds1 arbitrary: g st ms)
  case Nil show ?case by simp
next
  case (Cons d ds1)
  obtain new g1 st1 where step: "donation_step geocode d g st = (new, g1, st1)"
    by (cases "donation_step geocode d g st") auto
  show ?case
    using Cons.IH[of g1 st1 "ms @ new"] step
    by (simp add: donation_map_loop_step del: donation_map_loop.simps)
qed












lemma map_view_logged_in:
  "current_user st session = Some cu \<Longrightarrow>
   map_view geocode g st session req =
     (case map_view_loop geocode (reports_all st req) g st [] [] of
        (g', st', markers, heat_data) \<Rightarrow>
          (g', st', Render ''map.html''
             \<lparr>page_markers = markers, distinct_animals = remdups (map animal_type (reports st)),
              selected_animal = animal_filter req, page_heat_data = heat_data\<rparr>))"
  by (simp add: map_view_def)




lemma donation_map_logged_in:
  "current_user st session = Some cu \<Longrightarrow>
   donation_map geocode g st session =
     (case donation_map_loop geocode (donations st) g st [] of
        (g', st', markers) \<Rightarrow> (g', st', Render ''donation_map.html'' markers))"
  by (simp add: donation_map_def)





lemma map_view_loop_fallback:
  assumes loop: "map_view_loop geocode (rs1 @ r # rs2) g st [] [] = (g', st', ms, hs)"
    and lacks: "latitude r = None \<or> longitude r = None"
    and fails: "\<forall>h. fst (geocode (location r) h) = No_match \<or> fst (geocode (location r) h) = Geo_error"
  shows "length ms = length (rs1 @ r # rs2)"
    and "ms ! length rs1 = \<lparr>lat = 12.9716, lng = 77.5946, popup = report_popup r\<rparr>"
    and "hs ! length rs1 = (12.9716, 77.5946, 1)"
proof -
  have i: "length rs1 < length (rs1 @ r # rs2)" by simp
  from map_view_loop_nth[OF loop i]
  obtain gi sti la lo g2 st2 where len: "length ms = length (rs1 @ r # rs2)"
    and s: "report_lat_lng geocode r gi sti = (la, lo, g2, st2)"
    and m: "ms ! length rs1 = \<lparr>lat = la, lng = lo, popup = report_popup r\<rparr>"
    by auto
  have "la = 12.9716 \<and> lo = 77.5946"
    using s lacks fails[rule_format, of gi] by (auto simp: report_lat_lng_cases)
  with m show "ms ! length rs1 = \<lparr>lat = 12.9716, lng = 77.5946, popup = report_popup r\<rparr>" by simp
  then show "hs ! length rs1 = (12.9716, 77.5946, 1)"
    using map_view_loop_popups[OF loop] len by simp
  show "length ms = length (rs1 @ r # rs2)" by (rule len)
qed

lemma donation_map_loop_skip:
  assumes lacks: "pickup_latitude d = None \<or> pickup_longitude d = None"
    and fails: "fst (geocode (pickup_location d) g1) = No_match \<or> fst (geocode (pickup_location d) g1) = Geo_error"
    and first: "donation_map_loop geocode ds1 g st ms = (g1, st1, ms1)"
  shows "donation_map_loop geocode (ds1 @ d # ds2) g st ms
           = donation_map_loop geocode ds2 (snd (geocode (pickup_location d) g1)) st1 ms1"
proof -
  have "donation_step geocode d g1 st1 = ([], snd (geocode (pickup_location d) g1), st1)"
    using lacks fails by (auto simp: donation_step_cases)
  then show ?thesis
    using first by (simp add: donation_map_loop_append donation_map_loop_step del: donation_map_loop.simps)
qed


lemma example_geocoder_nowhere: "fst (example_geocoder ''nowhere'' h) = No_match"
  by (simp add: example_geocoder_def)


section \<open>Lemmas on the intake handlers and the upload check\<close>

lemma find_map_same_key:
  assumes "\<And>u. key (f u) = key u"
  shows "find (\<lambda>u. key u = k) (map f us) = map_option f (find (\<lambda>u. key u = k) us)"
  using assms by (induction us) auto

lemma current_user_award_points:
  assumes "current_user st session = Some cu" and "users st1 = users st"
  shows "current_user (award_points cu n st1) session = Some (cu\<lparr>points := points cu + n\<rparr>)"
proof -
  obtain uid where s: "session = Some uid" and f: "find (\<lambda>u. user_id u = uid) (users st) = Some cu"
    using assms(1) by (auto simp: current_user_def split: option.splits)
  have id: "user_id cu = uid" using f by (auto simp: find_Some_iff)
  let ?f = "\<lambda>u. if user_id u = user_id cu then u\<lparr>points := points cu + n\<rparr> else u"
  have "find (\<lambda>u. user_id u = uid) (map ?f (users st)) = map_option ?f (find (\<lambda>u. user_id u = uid) (users st))"
    by (rule find_map_same_key) simp
  then show ?thesis
    using s f assms(2) by (simp add: current_user_def award_points_def)
qed

lemma add_donation_success:
  assumes cu: "current_user st session = Some cu" and post: "req_method req = POST"
    and f: "form req ''description'' = Some descr" "form req ''food_type'' = Some ftype"
      "form req ''quantity'' = Some qty" "form req ''pickup_location'' = Some ploc"
      "form req ''pickup_time'' = Some tstr"
    and t: "strptime tstr = Some ptime"
  shows "add_donation strptime st session req =
     Inr (award_points cu 10
            (st\<lparr>donations := donations st @
                   [\<lparr>donation_id = next_id (map donation_id (donations st)), description = descr,
                     food_type = ftype, quantity = qty, pickup_location = ploc,
                     pickup_time = Some ptime, donor_id = user_id cu,
                     pickup_latitude = None, pickup_longitude = None\<rparr>]\<rparr>),
          Redirect ''dashboard'' [''Donation added successfully!''])"
  using assms by (simp add: add_donation_def Let_def)

lemma add_donation_Inr:
  assumes cu: "current_user st session = Some cu" and post: "req_method req = POST"
    and run: "add_donation strptime st session req = Inr (st', resp)"
  shows "\<exists>descr ftype qty ploc tstr ptime.
           form req ''description'' = Some descr \<and> form req ''food_type'' = Some ftype
           \<and> form req ''quantity'' = Some qty \<and> form req ''pickup_location'' = Some ploc
           \<and> form req ''pickup_time'' = Some tstr \<and> strptime tstr = Some ptime"
  using assms by (auto simp: add_donation_def Let_def split: option.splits)

lemma report_animal_success:
  assumes cu: "current_user st session = Some cu" and post: "req_method req = POST"
    and f: "form req ''animal_type'' = Some atype" "form req ''description'' = Some descr"
      "form req ''location'' = Some loc" "form req ''contact'' = Some cont"
  shows "report_animal to_ascii now st session req =
     (let accepted = (case files req ''image'' of
                        None \<Rightarrow> None
                      | Some file_name \<Rightarrow>
                          if file_name \<noteq> [] \<and> allowed_file file_name
                          then Some (secure_filename to_ascii file_name) else None);
          new_report = \<lparr>report_id = next_id (map report_id (reports st)), animal_type = atype,
                         report_description = descr, location = loc, contact = cont,
                         report_time = Some now, reporter_id = user_id cu,
                         image_filename = accepted, latitude = None, longitude = None\<rparr>
      in Inr (award_points cu 5
                (st\<lparr>uploads := uploads st @ (case accepted of None \<Rightarrow> [] | Some n \<Rightarrow> [n]),
                    reports := reports st @ [new_report]\<rparr>),
              Redirect ''dashboard'' [''Report submitted successfully!'']))"
  using assms
  by (auto simp: report_animal_def Let_def split: option.splits)

lemma report_animal_Inr:
  assumes cu: "current_user st session = Some cu" and post: "req_method req = POST"
    and run: "report_animal to_ascii now st session req = Inr (st', resp)"
  shows "\<exists>atype descr loc cont.
           form req ''animal_type'' = Some atype \<and> form req ''description'' = Some descr
           \<and> form req ''location'' = Some loc \<and> form req ''contact'' = Some cont"
  using assms by (auto simp: report_animal_def Let_def split: option.splits)

lemma strip_subset: "set (strip chars s) \<subseteq> set s"
proof -
  have "set (dropWhile (\<lambda>c. c \<in> set chars) (rev (dropWhile (\<lambda>c. c \<in> set chars) s)))
          \<subseteq> set (rev (dropWhile (\<lambda>c. c \<in> set chars) s))"
    by (rule set_dropWhileD[THEN subsetI])
  also have "\<dots> \<subseteq> set s" using set_dropWhileD[of _ "\<lambda>c. c \<in> set chars" s] by auto
  finally show ?thesis by (simp add: strip_def)
qed

lemma strip_ends:
  assumes "strip chars s \<noteq> []"
  shows "hd (strip chars s) \<notin> set chars" and "last (strip chars s) \<notin> set chars"
proof -
  let ?P = "\<lambda>c. c \<in> set chars"
  define a where "a = dropWhile ?P s"
  define b where "b = dropWhile ?P (rev a)"
  have st: "strip chars s = rev b" by (simp add: strip_def a_def b_def)
  have b: "b \<noteq> []" using assms st by simp
  then have "\<not> ?P (hd b)" unfolding b_def by (rule hd_dropWhile)
  then show "last (strip chars s) \<notin> set chars"
    using b st by (simp add: last_rev)
  have "rev (takeWhile ?P (rev a) @ b) = a"
    unfolding b_def by (simp only: takeWhile_dropWhile_id rev_rev_ident)
  then have dec: "a = rev b @ rev (takeWhile ?P (rev a))" by simp
  then have a: "a \<noteq> []" using b by auto
  then have "\<not> ?P (hd a)" unfolding a_def by (rule hd_dropWhile)
  moreover have "hd a = hd (rev b)" using dec b by (metis hd_append2 rev_is_Nil_conv)
  ultimately show "hd (strip chars s) \<notin> set chars" using st by simp
qed

lemma filename_char_not_separator:
  "filename_char c \<Longrightarrow> c \<noteq> CHR ''/'' \<and> c \<noteq> CHR 0x5C"
  by (auto simp: filename_char_def Let_def)

lemma secure_filename_chars: "c \<in> set (secure_filename to_ascii f) \<Longrightarrow> filename_char c"
  using strip_subset by (fastforce simp: secure_filename_def Let_def)

lemma secure_filename_safe:
  "CHR ''/'' \<notin> set (secure_filename to_ascii f) \<and> CHR 0x5C \<notin> set (secure_filename to_ascii f)
   \<and> (\<forall>c \<in> set (secure_filename to_ascii f). filename_char c)
   \<and> secure_filename to_ascii f \<noteq> ''.'' \<and> secure_filename to_ascii f \<noteq> ''..''
   \<and> (secure_filename to_ascii f \<noteq> [] \<longrightarrow>
        hd (secure_filename to_ascii f) \<noteq> CHR ''.'' \<and> last (secure_filename to_ascii f) \<noteq> CHR ''.'')
   \<and> (\<forall>a b. secure_filename to_ascii f \<noteq> a @ ''../'' @ b)"
proof -
  let ?n = "secure_filename to_ascii f"
  have sep: "CHR ''/'' \<notin> set ?n" "CHR 0x5C \<notin> set ?n"
    using secure_filename_chars filename_char_not_separator by blast+
  obtain body where n: "?n = strip ''._'' body"
    by (simp add: secure_filename_def Let_def)
  have ends: "?n \<noteq> [] \<longrightarrow> hd ?n \<noteq> CHR ''.'' \<and> last ?n \<noteq> CHR ''.''"
    using strip_ends[of "''._''" body] n by auto
  then have "?n \<noteq> ''.''" "?n \<noteq> ''..''" by (metis list.sel(1) list.discI)+
  moreover have "\<forall>a b. ?n \<noteq> a @ ''../'' @ b"
  proof (intro allI notI)
    fix a b assume "?n = a @ ''../'' @ b"
    then have "CHR ''/'' \<in> set ?n" by simp
    with sep show False by simp
  qed
  ultimately show ?thesis using sep ends secure_filename_chars by blast
qed

lemma rsplit_dot_1_append:
  "CHR ''.'' \<notin> set ext \<Longrightarrow> rsplit_dot_1 (stem @ ''.'' @ ext) = ext"
proof -
  assume a: "CHR ''.'' \<notin> set ext"
  have "takeWhile (\<lambda>c. c \<noteq> CHR ''.'') (rev ext @ CHR ''.'' # rev stem) = rev ext"
    using a by (auto simp: takeWhile_tail)
  then show ?thesis by (simp add: rsplit_dot_1_def)
qed

lemma rsplit_dot_1_decompose:
  assumes "CHR ''.'' \<in> set f"
  shows "\<exists>stem. f = stem @ ''.'' @ rsplit_dot_1 f \<and> CHR ''.'' \<notin> set (rsplit_dot_1 f)"
proof -
  let ?P = "\<lambda>c. c \<noteq> CHR ''.''"
  have ne: "dropWhile ?P (rev f) \<noteq> []" using assms by auto
  then have "hd (dropWhile ?P (rev f)) = CHR ''.''" using hd_dropWhile[OF ne] by simp
  then obtain rest where d: "dropWhile ?P (rev f) = CHR ''.'' # rest"
    using ne by (cases "dropWhile ?P (rev f)") auto
  have "rev f = takeWhile ?P (rev f) @ CHR ''.'' # rest"
    using takeWhile_dropWhile_id[of ?P "rev f"] d by simp
  then have "rev (rev f) = rev (takeWhile ?P (rev f) @ CHR ''.'' # rest)" by simp
  then have "f = rev rest @ ''.'' @ rsplit_dot_1 f" by (simp add: rsplit_dot_1_def)
  moreover have "CHR ''.'' \<notin> set (rsplit_dot_1 f)"
    using set_takeWhileD[of "CHR ''.''" ?P "rev f"] by (auto simp: rsplit_dot_1_def)
  ultimately show ?thesis by blast
qed

lemma allowed_file_iff:
  "allowed_file f \<longleftrightarrow>
     (\<exists>stem ext. f = stem @ ''.'' @ ext \<and> CHR ''.'' \<notin> set ext
        \<and> lower ext \<in> {''png'', ''jpg'', ''jpeg'', ''gif''})"
proof
  assume a: "allowed_file f"
  then have "CHR ''.'' \<in> set f" and l: "lower (rsplit_dot_1 f) \<in> {''png'', ''jpg'', ''jpeg'', ''gif''}"
    by (simp_all add: allowed_file_def ALLOWED_EXTENSIONS_def)
  from rsplit_dot_1_decompose[OF this(1)] l show
    "\<exists>stem ext. f = stem @ ''.'' @ ext \<and> CHR ''.'' \<notin> set ext
        \<and> lower ext \<in> {''png'', ''jpg'', ''jpeg'', ''gif''}" by blast
next
  assume "\<exists>stem ext. f = stem @ ''.'' @ ext \<and> CHR ''.'' \<notin> set ext
        \<and> lower ext \<in> {''png'', ''jpg'', ''jpeg'', ''gif''}"
  then obtain stem ext where f: "f = stem @ ''.'' @ ext" and e: "CHR ''.'' \<notin> set ext"
    and l: "lower ext \<in> {''png'', ''jpg'', ''jpeg'', ''gif''}" by blast
  have "rsplit_dot_1 f = ext" unfolding f by (rule rsplit_dot_1_append[OF e])
  then show "allowed_file f" using f l by (simp add: allowed_file_def ALLOWED_EXTENSIONS_def)
qed

lemma payload_exe_rejected: "\<not> allowed_file ''payload.exe''"
  by (simp add: allowed_file_def ALLOWED_EXTENSIONS_def rsplit_dot_1_def lower_def lower_char_def)

lemma evil_png_allowed: "allowed_file ''../../evil.png''"
  by (simp add: allowed_file_def ALLOWED_EXTENSIONS_def rsplit_dot_1_def lower_def lower_char_def)

lemma upper_case_allowed: "allowed_file ''Cat.JPG''"
  by (simp add: allowed_file_def ALLOWED_EXTENSIONS_def rsplit_dot_1_def lower_def lower_char_def Let_def
      char_of_eq_iff)

lemma evil_png_sanitized: "secure_filename id ''../../evil.png'' = ''evil.png''"
  by (simp add: secure_filename_def Let_def is_space_def filename_char_def strip_def)

lemma report_animal_returns:
  assumes "current_user st session = Some cu" "req_method req = POST"
    "form req ''animal_type'' = Some atype" "form req ''description'' = Some descr"
    "form req ''location'' = Some loc" "form req ''contact'' = Some cont"
  shows "\<exists>st'. report_animal to_ascii now st session req
                = Inr (st', Redirect ''dashboard'' [''Report submitted successfully!''])"
  using report_animal_success[OF assms, of to_ascii now] by (simp add: Let_def)

section \<open>Lemmas on invalid submissions, registration and the admin gate\<close>






lemma fold_max_ge: "a \<le> fold max xs (a::nat)"
  by (induction xs arbitrary: a) (auto intro: order_trans[OF max.cobounded2])

lemma fold_max_mem: "x \<in> set xs \<Longrightarrow> x \<le> fold max xs (a::nat)"
proof (induction xs arbitrary: a)
  case Nil then show ?case by simp
next
  case (Cons y ys)
  show ?case
  proof (cases "x = y")
    case True
    have "x \<le> max x a" by simp
    also have "\<dots> \<le> fold max ys (max x a)" by (rule fold_max_ge)
    finally show ?thesis using True by simp
  next
    case False
    then have "x \<in> set ys" using Cons.prems by simp
    from Cons.IH[OF this] show ?thesis by simp
  qed
qed

lemma next_id_fresh: "x \<in> set ids \<Longrightarrow> x < next_id ids"
  using fold_max_mem[of x ids 0] by (simp add: next_id_def)

lemma find_snoc:
  "find P (xs @ [y]) = (case find P xs of Some x \<Rightarrow> Some x | None \<Rightarrow> if P y then Some y else None)"
  by (induction xs) auto

lemma register_success:
  assumes post: "req_method req = POST"
    and f: "form req ''username'' = Some uname" "form req ''password'' = Some pw"
      "form req ''email'' = Some mail" "form req ''role'' = Some rl"
    and fresh: "\<forall>u \<in> set (users st). username u \<noteq> uname \<and> email u \<noteq> mail"
  shows "register hash st req =
     Inr (st\<lparr>users := users st @
                [\<lparr>user_id = next_id (map user_id (users st)), username = uname,
                  password = hash pw, email = mail, role = rl, points = 0\<rparr>]\<rparr>,
          Redirect ''login'' [''Registration successful! Please login.''])"
proof -
  have "find (\<lambda>u. email u = mail) (users st) = None"
    using fresh by (auto simp: find_None_iff)
  then show ?thesis
    using post f fresh by (simp add: register_def insert_user_def Let_def)
qed

lemma current_user_new:
  assumes "users st' = users st @ [nu]" "user_id nu = next_id (map user_id (users st))"
  shows "current_user st' (Some (user_id nu)) = Some nu"
proof -
  have "find (\<lambda>u. user_id u = user_id nu) (users st) = None"
    using next_id_fresh[of _ "map user_id (users st)"] assms(2) by (fastforce simp: find_None_iff)
  then show ?thesis using assms(1) by (simp add: current_user_def find_snoc)
qed

lemma login_new:
  assumes "users st' = users st @ [nu]" "\<forall>u \<in> set (users st). username u \<noteq> username nu"
    and "req_method req = POST" "form req ''username'' = Some (username nu)" "form req ''password'' = Some pw"
    and "check (password nu) pw"
  shows "login check st' session req = Inr (Some (user_id nu), Redirect ''dashboard'' [])"
proof -
  have "find (\<lambda>u. username u = username nu) (users st) = None"
    using assms(2) by (auto simp: find_None_iff)
  then show ?thesis using assms by (simp add: login_def find_snoc)
qed

lemma admin_passes_gates:
  assumes "current_user st session = Some cu" "role cu = ''admin''"
  shows "stats sum_quantity st session \<noteq> Inr (Redirect ''dashboard'' [''You are not authorized to view analytics.''])"
    and "stats sum_quantity st session \<noteq> Inr unauthorized"
    and "req_method req = GET \<Longrightarrow> create_event strptime st session req = Inr (st, Render ''create_event.html'' ())"
    and "req_method req = POST \<Longrightarrow> form req ''title'' = Some ttl \<Longrightarrow> form req ''description'' = Some descr
         \<Longrightarrow> form req ''event_time'' = Some tstr \<Longrightarrow> strptime tstr = Some etime
         \<Longrightarrow> form req ''location'' = Some loc
         \<Longrightarrow> create_event strptime st session req =
               Inr (st\<lparr>events := events st @
                        [\<lparr>event_id = next_id (map event_id (events st)), title = ttl,
                          event_description = descr, event_time = etime, event_location = loc\<rparr>]\<rparr>,
                    Redirect ''events'' [''Event created successfully!''])"
  using assms
  by (auto simp: stats_def create_event_def unauthorized_def split: sum.splits)

lemma register_duplicate_email:
  assumes "req_method req = POST"
    and "form req ''username'' = Some uname" "form req ''password'' = Some pw"
      "form req ''email'' = Some mail" "form req ''role'' = Some rl"
    and "\<exists>u \<in> set (users st). email u = mail"
  shows "register hash st req =
           Inr (st, Redirect ''register'' [''Email already registered. Please use a different email.''])"
proof -
  have "find (\<lambda>u. email u = mail) (users st) \<noteq> None"
    using assms(6) by (auto simp: find_None_iff)
  then show ?thesis using assms(1-5) by (simp add: register_def)
qed

lemma register_duplicate_username:
  assumes "req_method req = POST"
    and "form req ''username'' = Some uname" "form req ''password'' = Some pw"
      "form req ''email'' = Some mail" "form req ''role'' = Some rl"
    and "\<forall>u \<in> set (users st). email u \<noteq> mail"
    and "\<exists>u \<in> set (users st). username u = uname"
  shows "register hash st req = Inl IntegrityError"
proof -
  have "find (\<lambda>u. email u = mail) (users st) = None"
    using assms(6) by (auto simp: find_None_iff)
  then show ?thesis using assms by (auto simp: register_def insert_user_def Let_def)
qed

section \<open>The claims\<close>



text \<open>
  C2. For an administrator, when every report carries its \<open>report_time\<close> and the
  \<open>SUM\<close> query answers, \<open>stats\<close> renders the donation chart and the report chart as the
  specification's \<open>aggregate_by_month\<close> of the bucket keys: the key of a donation is the
  \<open>%Y-%m\<close> of its \<open>pickup_time\<close>, or \<open>Unknown\<close> when that is absent, the key of a report
  the \<open>%Y-%m\<close> of its \<open>report_time\<close>. The two loops alone always build these charts
  (the one over the reports when every report has its \<open>report_time\<close>). The labels of such
  a chart are ascending, distinct and exactly the keys that occur, and the counts run
  parallel to them. A key has the shape \<open>YYYY-MM\<close> for the years 1000 to 9999. Three
  donations picked up in 2024-01, 2024-01 and 2024-03 give the labels 2024-01, 2024-03
  with the counts 2, 1; no records give empty labels and counts.
\<close>

theorem stats_month_buckets:
  "(current_user st session = Some cu \<and> role cu = ''admin''
      \<and> (\<forall>r \<in> set (reports st). report_time r \<noteq> None)
      \<and> sum_quantity (map quantity (donations st)) = Inr summed \<longrightarrow>
    stats sum_quantity st session = Inr (Render ''stats.html''
      \<lparr>donation_chart = aggregate_by_month (map donation_key (donations st)),
       report_chart = aggregate_by_month (map (\<lambda>r. strftime_Ym (the (report_time r))) (reports st)),
       total_donations = length (donations st),
       total_quantity = (case summed of None \<Rightarrow> 0 | Some v \<Rightarrow> v)\<rparr>))
   \<and> make_chart (donation_data_loop ds []) = Inr (aggregate_by_month (map donation_key ds))
   \<and> ((\<forall>r \<in> set rs. report_time r \<noteq> None) \<longrightarrow>
        (\<exists>report_data. report_data_loop rs [] = Inr report_data
           \<and> make_chart report_data
               = Inr (aggregate_by_month (map (\<lambda>r. strftime_Ym (the (report_time r))) rs))))
   \<and> sorted (labels (aggregate_by_month ks)) \<and> distinct (labels (aggregate_by_month ks))
   \<and> set (labels (aggregate_by_month ks)) = set ks
   \<and> counts (aggregate_by_month ks) = map (\<lambda>k. int (count_list ks k)) (labels (aggregate_by_month ks))
   \<and> (pickup_time d = None \<longrightarrow> donation_key d = ''Unknown'')
   \<and> (pickup_time d = Some t \<longrightarrow> donation_key d = strftime_Ym t)
   \<and> (1000 \<le> year t \<and> year t \<le> 9999 \<and> 1 \<le> month t \<and> month t \<le> 12 \<longrightarrow>
        length (strftime_Ym t) = 7 \<and> strftime_Ym t ! 4 = CHR ''-''
        \<and> set (take 4 (strftime_Ym t)) \<subseteq> set ''0123456789''
        \<and> set (drop 5 (strftime_Ym t)) \<subseteq> set ''0123456789'')
   \<and> (pickup_time d1 = Some t1 \<and> year t1 = 2024 \<and> month t1 = 1
      \<and> pickup_time d2 = Some t2 \<and> year t2 = 2024 \<and> month t2 = 1
      \<and> pickup_time d3 = Some t3 \<and> year t3 = 2024 \<and> month t3 = 3 \<longrightarrow>
      make_chart (donation_data_loop [d1, d2, d3] [])
        = Inr \<lparr>labels = [''2024-01'', ''2024-03''], counts = [2, 1]\<rparr>)
   \<and> make_chart (donation_data_loop [] []) = Inr \<lparr>labels = [], counts = []\<rparr>
   \<and> report_data_loop [] [] = Inr [] \<and> make_chart [] = Inr \<lparr>labels = [], counts = []\<rparr>"
proof -
  have a: "current_user st session = Some cu \<and> role cu = ''admin''
      \<and> (\<forall>r \<in> set (reports st). report_time r \<noteq> None)
      \<and> sum_quantity (map quantity (donations st)) = Inr summed \<longrightarrow>
    stats sum_quantity st session = Inr (Render ''stats.html''
      \<lparr>donation_chart = aggregate_by_month (map donation_key (donations st)),
       report_chart = aggregate_by_month (map (\<lambda>r. strftime_Ym (the (report_time r))) (reports st)),
       total_donations = length (donations st),
       total_quantity = (case summed of None \<Rightarrow> 0 | Some v \<Rightarrow> v)\<rparr>)"
    using stats_admin by blast
  have r: "(\<forall>r \<in> set rs. report_time r \<noteq> None) \<longrightarrow>
        (\<exists>report_data. report_data_loop rs [] = Inr report_data
           \<and> make_chart report_data
               = Inr (aggregate_by_month (map (\<lambda>r. strftime_Ym (the (report_time r))) rs)))"
    by (simp add: report_data_loop_fold make_chart_fold_bump)
  have b: "pickup_time d1 = Some t1 \<and> year t1 = 2024 \<and> month t1 = 1
      \<and> pickup_time d2 = Some t2 \<and> year t2 = 2024 \<and> month t2 = 1
      \<and> pickup_time d3 = Some t3 \<and> year t3 = 2024 \<and> month t3 = 3 \<longrightarrow>
      make_chart (donation_data_loop [d1, d2, d3] [])
        = Inr \<lparr>labels = [''2024-01'', ''2024-03''], counts = [2, 1]\<rparr>"
    using example_2024 by blast
  have c: "make_chart (donation_data_loop [] []) = Inr \<lparr>labels = [], counts = []\<rparr>"
    "make_chart [] = Inr \<lparr>labels = [], counts = []\<rparr>"
    by (simp_all add: make_chart_def)
  have d: "(pickup_time d = None \<longrightarrow> donation_key d = ''Unknown'')"
    "(pickup_time d = Some t \<longrightarrow> donation_key d = strftime_Ym t)"
    by (simp_all add: donation_key_def)
  have e: "1000 \<le> year t \<and> year t \<le> 9999 \<and> 1 \<le> month t \<and> month t \<le> 12 \<longrightarrow>
        length (strftime_Ym t) = 7 \<and> strftime_Ym t ! 4 = CHR ''-''
        \<and> set (take 4 (strftime_Ym t)) \<subseteq> set ''0123456789''
        \<and> set (drop 5 (strftime_Ym t)) \<subseteq> set ''0123456789''"
    using strftime_Ym_shape by blast
  show ?thesis
    using a r b c d e aggregate_by_month_props[of ks] make_chart_donations[of ds] by simp
qed

theorem stats_month_buckets_witness:
  "current_user stats_example (Some 1) = Some example_admin \<and> role example_admin = ''admin''
   \<and> stats example_sum stats_example (Some 1) = Inr (Render ''stats.html''
       \<lparr>donation_chart = \<lparr>labels = [''2024-01'', ''2024-03'', ''Unknown''], counts = [2, 1, 1]\<rparr>,
        report_chart = \<lparr>labels = [''2023-12'', ''2024-02''], counts = [1, 1]\<rparr>,
        total_donations = 4, total_quantity = 20\<rparr>)"
proof -
  have h: "current_user stats_example (Some 1) = Some example_admin" "role example_admin = ''admin''"
    "\<forall>r \<in> set (reports stats_example). report_time r \<noteq> None"
    by (simp_all add: current_user_def stats_example_def example_admin_def dated_report_def)
  have q: "example_sum (map quantity (donations stats_example)) = Inr (Some 20)"
    by (simp add: example_sum_def stats_example_def dated_donation_def digits_value_def)
  have "stats example_sum stats_example (Some 1) = Inr (Render ''stats.html''
      \<lparr>donation_chart = aggregate_by_month (map donation_key (donations stats_example)),
       report_chart = aggregate_by_month (map (\<lambda>r. strftime_Ym (the (report_time r))) (reports stats_example)),
       total_donations = length (donations stats_example),
       total_quantity = (case Some 20 of None \<Rightarrow> 0 | Some v \<Rightarrow> v)\<rparr>)"
    using h q stats_month_buckets[where st = stats_example and session = "Some 1" and cu = example_admin
        and sum_quantity = example_sum and summed = "Some 20"]
    by blast
  moreover have "aggregate_by_month (map donation_key (donations stats_example))
      = \<lparr>labels = [''2024-01'', ''2024-03'', ''Unknown''], counts = [2, 1, 1]\<rparr>"
    by (simp add: aggregate_by_month_def stats_example_def dated_donation_def example_time_def
        donation_key_def strftime_Ym_def zfill_def str_nat.simps)
  moreover have "aggregate_by_month (map (\<lambda>r. strftime_Ym (the (report_time r))) (reports stats_example))
      = \<lparr>labels = [''2023-12'', ''2024-02''], counts = [1, 1]\<rparr>"
    by (simp add: aggregate_by_month_def stats_example_def dated_report_def example_time_def
        strftime_Ym_def zfill_def str_nat.simps)
  moreover have "length (donations stats_example) = 4"
    by (simp add: stats_example_def)
  ultimately show ?thesis using h by simp
qed


text \<open>
  C3, as the code has it. For a report whose address the resolver cannot match,
  \<open>map_view\<close> emits the marker at the fallback coordinate (12.9716, 77.5946). For a
  donation whose address the resolver cannot match, \<open>donation_map\<close> emits no marker and
  substitutes nothing: the result is that of the records before it followed by the
  records after it.
\<close>

theorem unmatched_address_fallback:
  "(current_user st session = Some cu \<and> reports_all st req = rs_a @ r # rs_b
    \<and> (latitude r = None \<or> longitude r = None)
    \<and> (\<forall>h. fst (geocode (location r) h) = No_match)
    \<and> map_view geocode g st session req = (g', st', resp) \<longrightarrow>
      (\<exists>page. resp = Render ''map.html'' page
         \<and> length (page_markers page) = length (reports_all st req)
         \<and> page_markers page ! length rs_a = \<lparr>lat = 12.9716, lng = 77.5946, popup = report_popup r\<rparr>))
   \<and> (current_user st session = Some cu \<and> donations st = ds_a @ d # ds_b
    \<and> (pickup_latitude d = None \<or> pickup_longitude d = None)
    \<and> (\<forall>h. fst (geocode (pickup_location d) h) = No_match) \<longrightarrow>
      (\<exists>g1 st1 ms1. donation_map_loop geocode ds_a g st [] = (g1, st1, ms1)
         \<and> donation_map geocode g st session =
             (case donation_map_loop geocode ds_b (snd (geocode (pickup_location d) g1)) st1 ms1 of
                (gd', std', markers) \<Rightarrow> (gd', std', Render ''donation_map.html'' markers))))"
proof (intro conjI impI; elim conjE)
  assume cu: "current_user st session = Some cu"
    and split: "reports_all st req = rs_a @ r # rs_b"
    and lacks: "latitude r = None \<or> longitude r = None"
    and fails: "\<forall>h. fst (geocode (location r) h) = No_match"
    and run: "map_view geocode g st session req = (g', st', resp)"
  obtain gl stl ms hs where loop: "map_view_loop geocode (rs_a @ r # rs_b) g st [] [] = (gl, stl, ms, hs)"
    by (metis prod.exhaust)
  have f: "\<forall>h. fst (geocode (location r) h) = No_match \<or> fst (geocode (location r) h) = Geo_error"
    using fails by simp
  have "resp = Render ''map.html''
           \<lparr>page_markers = ms, distinct_animals = remdups (map animal_type (reports st)),
            selected_animal = animal_filter req, page_heat_data = hs\<rparr>"
    using run loop split by (simp add: map_view_logged_in[OF cu])
  then show "\<exists>page. resp = Render ''map.html'' page
         \<and> length (page_markers page) = length (reports_all st req)
         \<and> page_markers page ! length rs_a = \<lparr>lat = 12.9716, lng = 77.5946, popup = report_popup r\<rparr>"
    using map_view_loop_fallback(1,2)[OF loop lacks f] split by simp
next
  assume cu: "current_user st session = Some cu"
    and split: "donations st = ds_a @ d # ds_b"
    and lacks: "pickup_latitude d = None \<or> pickup_longitude d = None"
    and fails: "\<forall>h. fst (geocode (pickup_location d) h) = No_match"
  obtain g1 st1 ms1 where first: "donation_map_loop geocode ds_a g st [] = (g1, st1, ms1)"
    by (metis prod.exhaust)
  have "fst (geocode (pickup_location d) g1) = No_match \<or> fst (geocode (pickup_location d) g1) = Geo_error"
    using fails by simp
  from donation_map_loop_skip[OF lacks this first, of ds_b]
  have "donation_map geocode g st session =
             (case donation_map_loop geocode ds_b (snd (geocode (pickup_location d) g1)) st1 ms1 of
                (gd', std', markers) \<Rightarrow> (gd', std', Render ''donation_map.html'' markers))"
    using split by (simp add: donation_map_logged_in[OF cu])
  with first show "\<exists>g1 st1 ms1. donation_map_loop geocode ds_a g st [] = (g1, st1, ms1)
         \<and> donation_map geocode g st session =
             (case donation_map_loop geocode ds_b (snd (geocode (pickup_location d) g1)) st1 ms1 of
                (gd', std', markers) \<Rightarrow> (gd', std', Render ''donation_map.html'' markers))"
    by blast
qed

theorem unmatched_address_fallback_witness:
  "(\<exists>page. snd (snd (map_view example_geocoder 0 unmatched_example (Some 2) example_get))
             = Render ''map.html'' page
        \<and> length (page_markers page) = 3
        \<and> page_markers page ! 1
            = \<lparr>lat = 12.9716, lng = 77.5946,
               popup = report_popup (example_report 2 ''nowhere'' None None)\<rparr>)
   \<and> snd (snd (donation_map example_geocoder 0 unmatched_example (Some 2)))
       = Render ''donation_map.html''
           [\<lparr>lat = 12.9756, lng = 77.6050, popup = ''Donation: rice''\<rparr>,
            \<lparr>lat = 12.9352, lng = 77.6245, popup = ''Donation: rice''\<rparr>]"
proof -
  have cu: "current_user unmatched_example (Some 2) = Some example_user"
    by (simp add: current_user_def unmatched_example_def example_user_def)
  have ra: "reports_all unmatched_example example_get
      = [example_report 1 ''MG Road'' (Some 12.9756) (Some 77.6050)]
        @ example_report 2 ''nowhere'' None None # [example_report 3 ''Koramangala'' None None]"
    by (simp add: reports_all_def animal_filter_def example_get_def unmatched_example_def)
  have da: "donations unmatched_example
      = [example_donation 1 ''MG Road'' (Some 12.9756) (Some 77.6050)]
        @ example_donation 2 ''nowhere'' None None # [example_donation 3 ''Koramangala'' None None]"
    by (simp add: unmatched_example_def)
  have lr: "latitude (example_report 2 ''nowhere'' None None) = None
            \<or> longitude (example_report 2 ''nowhere'' None None) = None"
    and fr: "\<forall>h. fst (example_geocoder (location (example_report 2 ''nowhere'' None None)) h) = No_match"
    by (simp_all add: example_report_def example_geocoder_nowhere)
  have ld: "pickup_latitude (example_donation 2 ''nowhere'' None None) = None
            \<or> pickup_longitude (example_donation 2 ''nowhere'' None None) = None"
    and fd: "\<forall>h. fst (example_geocoder (pickup_location (example_donation 2 ''nowhere'' None None)) h) = No_match"
    by (simp_all add: example_donation_def example_geocoder_nowhere)
  obtain g' st' resp where
    run: "map_view example_geocoder 0 unmatched_example (Some 2) example_get = (g', st', resp)"
    by (metis prod.exhaust)
  note t = unmatched_address_fallback[where st = unmatched_example and session = "Some 2"
      and cu = example_user and req = example_get and geocode = example_geocoder and g = 0
      and rs_a = "[example_report 1 ''MG Road'' (Some 12.9756) (Some 77.6050)]"
      and r = "example_report 2 ''nowhere'' None None"
      and rs_b = "[example_report 3 ''Koramangala'' None None]"
      and g' = g' and st' = st' and resp = resp
      and ds_a = "[example_donation 1 ''MG Road'' (Some 12.9756) (Some 77.6050)]"
      and d = "example_donation 2 ''nowhere'' None None"
      and ds_b = "[example_donation 3 ''Koramangala'' None None]"]
  have "\<exists>page. resp = Render ''map.html'' page
         \<and> length (page_markers page) = length (reports_all unmatched_example example_get)
         \<and> page_markers page ! length [example_report 1 ''MG Road'' (Some 12.9756) (Some 77.6050)]
             = \<lparr>lat = 12.9716, lng = 77.5946,
                popup = report_popup (example_report 2 ''nowhere'' None None)\<rparr>"
    using t[THEN conjunct1] cu ra lr fr run by blast
  then have a: "\<exists>page. resp = Render ''map.html'' page
         \<and> length (page_markers page) = 3
         \<and> page_markers page ! 1 = \<lparr>lat = 12.9716, lng = 77.5946,
               popup = report_popup (example_report 2 ''nowhere'' None None)\<rparr>"
    unfolding ra by (simp add: numeral_3_eq_3)
  have "\<exists>g1 st1 ms1.
      donation_map_loop example_geocoder [example_donation 1 ''MG Road'' (Some 12.9756) (Some 77.6050)]
          0 unmatched_example [] = (g1, st1, ms1)
      \<and> donation_map example_geocoder 0 unmatched_example (Some 2) =
          (case donation_map_loop example_geocoder [example_donation 3 ''Koramangala'' None None]
                  (snd (example_geocoder (pickup_location (example_donation 2 ''nowhere'' None None)) g1))
                  st1 ms1 of
             (gd', std', markers) \<Rightarrow> (gd', std', Render ''donation_map.html'' markers))"
    using t[THEN conjunct2] cu da ld fd by blast
  then have b: "snd (snd (donation_map example_geocoder 0 unmatched_example (Some 2)))
       = Render ''donation_map.html''
           [\<lparr>lat = 12.9756, lng = 77.6050, popup = ''Donation: rice''\<rparr>,
            \<lparr>lat = 12.9352, lng = 77.6245, popup = ''Donation: rice''\<rparr>]"
    by (auto simp: example_donation_def example_geocoder_def donation_popup_def)
  show ?thesis using a b run by simp
qed

text \<open>
  C3 as the specification states it fails for donations: the only donation has an
  address without a match, and the marker list is empty.
\<close>

theorem unmatched_address_fallback_counterexample:
  "donation_map example_geocoder 0 lone_unmatched_example (Some 2)
     = (1, lone_unmatched_example, Render ''donation_map.html'' [])"
  by (simp add: donation_map_def current_user_def lone_unmatched_example_def example_user_def
      example_donation_def example_geocoder_def)



text \<open>
  C5. A successful \<open>add_donation\<close> appends exactly one donation row, with the logged-in
  user as donor and the fields of the form, and adds 10 to that user's points; a
  successful \<open>report_animal\<close> appends exactly one report row, with the user as reporter,
  and adds 5. The rows already stored are the same afterwards, the other tables are
  untouched, and the other users keep their points. A submission with every field
  present (and a \<open>pickup_time\<close> that parses) is successful.
\<close>

theorem intake_persists_one_row_and_awards_points:
  "(current_user st session = Some cu \<and> req_method req = POST
    \<and> add_donation strptime st session req = Inr (st', resp) \<longrightarrow>
      (\<exists>d. donations st' = donations st @ [d] \<and> donor_id d = user_id cu
          \<and> donation_id d = next_id (map donation_id (donations st))
          \<and> form req ''description'' = Some (description d)
          \<and> form req ''food_type'' = Some (food_type d)
          \<and> form req ''quantity'' = Some (quantity d)
          \<and> form req ''pickup_location'' = Some (pickup_location d)
          \<and> (\<exists>tstr. form req ''pickup_time'' = Some tstr \<and> strptime tstr = pickup_time d)
          \<and> pickup_time d \<noteq> None \<and> pickup_latitude d = None \<and> pickup_longitude d = None)
      \<and> users st' = map (\<lambda>u. if user_id u = user_id cu then u\<lparr>points := points cu + 10\<rparr> else u)
                        (users st)
      \<and> current_user st' session = Some (cu\<lparr>points := points cu + 10\<rparr>)
      \<and> reports st' = reports st \<and> events st' = events st \<and> uploads st' = uploads st
      \<and> resp = Redirect ''dashboard'' [''Donation added successfully!''])
   \<and> (current_user st session = Some cu \<and> req_method req = POST
    \<and> form req ''description'' = Some descr \<and> form req ''food_type'' = Some ftype
    \<and> form req ''quantity'' = Some qty \<and> form req ''pickup_location'' = Some ploc
    \<and> form req ''pickup_time'' = Some tstr \<and> strptime tstr = Some ptime \<longrightarrow>
      (\<exists>st'. add_donation strptime st session req
                = Inr (st', Redirect ''dashboard'' [''Donation added successfully!''])))
   \<and> (current_user st session = Some cu \<and> req_method req = POST
    \<and> report_animal to_ascii now st session req = Inr (st', resp) \<longrightarrow>
      (\<exists>r. reports st' = reports st @ [r] \<and> reporter_id r = user_id cu
          \<and> report_id r = next_id (map report_id (reports st))
          \<and> form req ''animal_type'' = Some (animal_type r)
          \<and> form req ''description'' = Some (report_description r)
          \<and> form req ''location'' = Some (location r)
          \<and> form req ''contact'' = Some (contact r)
          \<and> report_time r = Some now \<and> latitude r = None \<and> longitude r = None
          \<and> uploads st' = uploads st @ (case image_filename r of None \<Rightarrow> [] | Some n \<Rightarrow> [n]))
      \<and> users st' = map (\<lambda>u. if user_id u = user_id cu then u\<lparr>points := points cu + 5\<rparr> else u)
                        (users st)
      \<and> current_user st' session = Some (cu\<lparr>points := points cu + 5\<rparr>)
      \<and> donations st' = donations st \<and> events st' = events st
      \<and> resp = Redirect ''dashboard'' [''Report submitted successfully!''])
   \<and> (current_user st session = Some cu \<and> req_method req = POST
    \<and> form req ''animal_type'' = Some atype \<and> form req ''description'' = Some descr
    \<and> form req ''location'' = Some loc \<and> form req ''contact'' = Some cont \<longrightarrow>
      (\<exists>st'. report_animal to_ascii now st session req
                = Inr (st', Redirect ''dashboard'' [''Report submitted successfully!''])))"
proof (intro conjI impI; elim conjE)
  assume cu: "current_user st session = Some cu" and post: "req_method req = POST"
    and run: "add_donation strptime st session req = Inr (st', resp)"
  from add_donation_Inr[OF cu post run] obtain descr ftype qty ploc tstr ptime where
    f: "form req ''description'' = Some descr" "form req ''food_type'' = Some ftype"
      "form req ''quantity'' = Some qty" "form req ''pickup_location'' = Some ploc"
      "form req ''pickup_time'' = Some tstr" and t: "strptime tstr = Some ptime"
    by blast
  let ?d = "\<lparr>donation_id = next_id (map donation_id (donations st)), description = descr,
             food_type = ftype, quantity = qty, pickup_location = ploc,
             pickup_time = Some ptime, donor_id = user_id cu,
             pickup_latitude = None, pickup_longitude = None\<rparr>"
  let ?st1 = "st\<lparr>donations := donations st @ [?d]\<rparr>"
  have eq: "st' = award_points cu 10 ?st1" "resp = Redirect ''dashboard'' [''Donation added successfully!'']"
    using add_donation_success[where strptime = strptime, OF cu post f t] run by simp_all
  show "\<exists>d. donations st' = donations st @ [d] \<and> donor_id d = user_id cu
          \<and> donation_id d = next_id (map donation_id (donations st))
          \<and> form req ''description'' = Some (description d)
          \<and> form req ''food_type'' = Some (food_type d)
          \<and> form req ''quantity'' = Some (quantity d)
          \<and> form req ''pickup_location'' = Some (pickup_location d)
          \<and> (\<exists>tstr. form req ''pickup_time'' = Some tstr \<and> strptime tstr = pickup_time d)
          \<and> pickup_time d \<noteq> None \<and> pickup_latitude d = None \<and> pickup_longitude d = None"
    by (rule exI[of _ ?d]) (use eq(1) f t in \<open>simp add: award_points_def\<close>)
  show "users st' = map (\<lambda>u. if user_id u = user_id cu then u\<lparr>points := points cu + 10\<rparr> else u)
                        (users st)"
    using eq(1) by (simp add: award_points_def)
  show "current_user st' session = Some (cu\<lparr>points := points cu + 10\<rparr>)"
    unfolding eq(1) by (rule current_user_award_points[OF cu]) simp
  show "reports st' = reports st" "events st' = events st" "uploads st' = uploads st"
    using eq(1) by (simp_all add: award_points_def)
  show "resp = Redirect ''dashboard'' [''Donation added successfully!'']" by (rule eq(2))
next
  assume "current_user st session = Some cu" "req_method req = POST"
    "form req ''description'' = Some descr" "form req ''food_type'' = Some ftype"
    "form req ''quantity'' = Some qty" "form req ''pickup_location'' = Some ploc"
    "form req ''pickup_time'' = Some tstr" "strptime tstr = Some ptime"
  from add_donation_success[where strptime = strptime, OF this]
  show "\<exists>st'. add_donation strptime st session req
                = Inr (st', Redirect ''dashboard'' [''Donation added successfully!''])"
    by blast
next
  assume cu: "current_user st session = Some cu" and post: "req_method req = POST"
    and run: "report_animal to_ascii now st session req = Inr (st', resp)"
  from report_animal_Inr[OF cu post run] obtain atype descr loc cont where
    f: "form req ''animal_type'' = Some atype" "form req ''description'' = Some descr"
      "form req ''location'' = Some loc" "form req ''contact'' = Some cont"
    by blast
  define accepted where "accepted = (case files req ''image'' of
                        None \<Rightarrow> None
                      | Some file_name \<Rightarrow>
                          if file_name \<noteq> [] \<and> allowed_file file_name
                          then Some (secure_filename to_ascii file_name) else None)"
  let ?r = "\<lparr>report_id = next_id (map report_id (reports st)), animal_type = atype,
             report_description = descr, location = loc, contact = cont,
             report_time = Some now, reporter_id = user_id cu,
             image_filename = accepted, latitude = None, longitude = None\<rparr>"
  let ?st1 = "st\<lparr>uploads := uploads st @ (case accepted of None \<Rightarrow> [] | Some n \<Rightarrow> [n]),
                 reports := reports st @ [?r]\<rparr>"
  have eq: "st' = award_points cu 5 ?st1" "resp = Redirect ''dashboard'' [''Report submitted successfully!'']"
    using report_animal_success[OF cu post f, of to_ascii now] run
    by (simp_all add: Let_def accepted_def)
  show "\<exists>r. reports st' = reports st @ [r] \<and> reporter_id r = user_id cu
          \<and> report_id r = next_id (map report_id (reports st))
          \<and> form req ''animal_type'' = Some (animal_type r)
          \<and> form req ''description'' = Some (report_description r)
          \<and> form req ''location'' = Some (location r)
          \<and> form req ''contact'' = Some (contact r)
          \<and> report_time r = Some now \<and> latitude r = None \<and> longitude r = None
          \<and> uploads st' = uploads st @ (case image_filename r of None \<Rightarrow> [] | Some n \<Rightarrow> [n])"
    by (rule exI[of _ ?r]) (use eq(1) f in \<open>simp add: award_points_def\<close>)
  show "users st' = map (\<lambda>u. if user_id u = user_id cu then u\<lparr>points := points cu + 5\<rparr> else u)
                        (users st)"
    using eq(1) by (simp add: award_points_def)
  show "current_user st' session = Some (cu\<lparr>points := points cu + 5\<rparr>)"
    unfolding eq(1) by (rule current_user_award_points[OF cu]) simp
  show "donations st' = donations st" "events st' = events st"
    using eq(1) by (simp_all add: award_points_def)
  show "resp = Redirect ''dashboard'' [''Report submitted successfully!'']" by (rule eq(2))
next
  assume "current_user st session = Some cu" "req_method req = POST"
    "form req ''animal_type'' = Some atype" "form req ''description'' = Some descr"
    "form req ''location'' = Some loc" "form req ''contact'' = Some cont"
  from report_animal_success[OF this, of to_ascii now]
  show "\<exists>st'. report_animal to_ascii now st session req
                = Inr (st', Redirect ''dashboard'' [''Report submitted successfully!''])"
    by (simp add: Let_def)
qed

theorem intake_persists_one_row_and_awards_points_witness:
  "(\<exists>st'. add_donation example_strptime intake_example (Some 2) donation_post
             = Inr (st', Redirect ''dashboard'' [''Donation added successfully!''])
        \<and> length (donations st') = 2 \<and> take 1 (donations st') = donations intake_example
        \<and> map donor_id (donations st') = [2, 2] \<and> map quantity (donations st') = [''5'', ''5'']
        \<and> map points (users st') = [0, 10] \<and> reports st' = reports intake_example)
   \<and> (\<exists>st'. report_animal id example_now intake_example (Some 2) (report_post ''cat.png'')
             = Inr (st', Redirect ''dashboard'' [''Report submitted successfully!''])
        \<and> length (reports st') = 2 \<and> take 1 (reports st') = reports intake_example
        \<and> map reporter_id (reports st') = [2, 2]
        \<and> map points (users st') = [0, 5] \<and> donations st' = donations intake_example)"
proof -
  have cu: "current_user intake_example (Some 2) = Some example_user"
    by (simp add: current_user_def intake_example_def example_user_def example_admin_def)
  have pd: "req_method donation_post = POST"
    "form donation_post ''description'' = Some ''rice''" "form donation_post ''food_type'' = Some ''dry''"
    "form donation_post ''quantity'' = Some ''5''" "form donation_post ''pickup_location'' = Some ''X''"
    "form donation_post ''pickup_time'' = Some ''2024-06-01T10:00''"
    by (simp_all add: donation_post_def)
  have ts: "example_strptime ''2024-06-01T10:00''
              = Some \<lparr>year = 2024, month = 6, day = 1, hour = 10, minute = 0, second = 0\<rparr>"
    by (simp add: example_strptime_def)
  have pr: "req_method (report_post ''cat.png'') = POST"
    "form (report_post ''cat.png'') ''animal_type'' = Some ''dog''"
    "form (report_post ''cat.png'') ''description'' = Some ''limping''"
    "form (report_post ''cat.png'') ''location'' = Some ''Indiranagar''"
    "form (report_post ''cat.png'') ''contact'' = Some ''080''"
    by (simp_all add: report_post_def)
  note t = intake_persists_one_row_and_awards_points[where st = intake_example and session = "Some 2"
      and cu = example_user and strptime = example_strptime and to_ascii = id and now = example_now]
  from t[where req = donation_post, THEN conjunct2, THEN conjunct1, rule_format, OF conjI[OF cu], OF conjI[OF pd(1)],
         OF conjI[OF pd(2)], OF conjI[OF pd(3)], OF conjI[OF pd(4)], OF conjI[OF pd(5)], OF conjI[OF pd(6) ts]]
  obtain sd where sd: "add_donation example_strptime intake_example (Some 2) donation_post
             = Inr (sd, Redirect ''dashboard'' [''Donation added successfully!''])"
    by blast
  have td: "(\<exists>d. donations sd = donations intake_example @ [d] \<and> donor_id d = user_id example_user
          \<and> donation_id d = next_id (map donation_id (donations intake_example))
          \<and> form donation_post ''description'' = Some (description d)
          \<and> form donation_post ''food_type'' = Some (food_type d)
          \<and> form donation_post ''quantity'' = Some (quantity d)
          \<and> form donation_post ''pickup_location'' = Some (pickup_location d)
          \<and> (\<exists>tstr. form donation_post ''pickup_time'' = Some tstr \<and> example_strptime tstr = pickup_time d)
          \<and> pickup_time d \<noteq> None \<and> pickup_latitude d = None \<and> pickup_longitude d = None)
      \<and> users sd = map (\<lambda>u. if user_id u = user_id example_user
                               then u\<lparr>points := points example_user + 10\<rparr> else u)
                        (users intake_example)
      \<and> current_user sd (Some 2) = Some (example_user\<lparr>points := points example_user + 10\<rparr>)
      \<and> reports sd = reports intake_example \<and> events sd = events intake_example
      \<and> uploads sd = uploads intake_example
      \<and> Redirect ''dashboard'' [''Donation added successfully!'']
          = (Redirect ''dashboard'' [''Donation added successfully!''] :: unit response)"
    by (rule t[where req = donation_post and st' = sd, THEN conjunct1, rule_format])
       (intro conjI cu pd(1) sd)
  then obtain d where d: "donations sd = donations intake_example @ [d]" "donor_id d = user_id example_user"
      "form donation_post ''quantity'' = Some (quantity d)"
    by blast
  have ud: "users sd = map (\<lambda>u. if user_id u = user_id example_user
                                   then u\<lparr>points := points example_user + 10\<rparr> else u)
                           (users intake_example)"
    and rd: "reports sd = reports intake_example"
    using td by blast+
  have a: "length (donations sd) = 2 \<and> take 1 (donations sd) = donations intake_example
        \<and> map donor_id (donations sd) = [2, 2] \<and> map quantity (donations sd) = [''5'', ''5'']
        \<and> map points (users sd) = [0, 10] \<and> reports sd = reports intake_example"
    using d ud rd pd(4)
    by (simp add: intake_example_def example_user_def example_admin_def example_donation_def)
  from t[where req = "report_post ''cat.png''", THEN conjunct2, THEN conjunct2, THEN conjunct2, rule_format,
         OF conjI[OF cu], OF conjI[OF pr(1)], OF conjI[OF pr(2)], OF conjI[OF pr(3)], OF conjI[OF pr(4) pr(5)]]
  obtain sr where sr: "report_animal id example_now intake_example (Some 2) (report_post ''cat.png'')
             = Inr (sr, Redirect ''dashboard'' [''Report submitted successfully!''])"
    by blast
  have tr: "(\<exists>r. reports sr = reports intake_example @ [r] \<and> reporter_id r = user_id example_user
          \<and> report_id r = next_id (map report_id (reports intake_example))
          \<and> form (report_post ''cat.png'') ''animal_type'' = Some (animal_type r)
          \<and> form (report_post ''cat.png'') ''description'' = Some (report_description r)
          \<and> form (report_post ''cat.png'') ''location'' = Some (location r)
          \<and> form (report_post ''cat.png'') ''contact'' = Some (contact r)
          \<and> report_time r = Some example_now \<and> latitude r = None \<and> longitude r = None
          \<and> uploads sr = uploads intake_example @ (case image_filename r of None \<Rightarrow> [] | Some n \<Rightarrow> [n]))
      \<and> users sr = map (\<lambda>u. if user_id u = user_id example_user
                               then u\<lparr>points := points example_user + 5\<rparr> else u)
                        (users intake_example)
      \<and> current_user sr (Some 2) = Some (example_user\<lparr>points := points example_user + 5\<rparr>)
      \<and> donations sr = donations intake_example \<and> events sr = events intake_example
      \<and> Redirect ''dashboard'' [''Report submitted successfully!'']
          = (Redirect ''dashboard'' [''Report submitted successfully!''] :: unit response)"
    by (rule t[where req = "report_post ''cat.png''" and st' = sr,
              THEN conjunct2, THEN conjunct2, THEN conjunct1, rule_format])
       (intro conjI cu pr(1) sr)
  then obtain r where r: "reports sr = reports intake_example @ [r]" "reporter_id r = user_id example_user"
    by blast
  have ur: "users sr = map (\<lambda>u. if user_id u = user_id example_user
                                   then u\<lparr>points := points example_user + 5\<rparr> else u)
                           (users intake_example)"
    and dr: "donations sr = donations intake_example"
    using tr by blast+
  have b: "length (reports sr) = 2 \<and> take 1 (reports sr) = reports intake_example
        \<and> map reporter_id (reports sr) = [2, 2]
        \<and> map points (users sr) = [0, 5] \<and> donations sr = donations intake_example"
    using r ur dr
    by (simp add: intake_example_def example_user_def example_admin_def example_report_def)
  have A: "\<exists>st'. add_donation example_strptime intake_example (Some 2) donation_post
             = Inr (st', Redirect ''dashboard'' [''Donation added successfully!''])
        \<and> length (donations st') = 2 \<and> take 1 (donations st') = donations intake_example
        \<and> map donor_id (donations st') = [2, 2] \<and> map quantity (donations st') = [''5'', ''5'']
        \<and> map points (users st') = [0, 10] \<and> reports st' = reports intake_example"
    by (rule exI[of _ sd]) (rule conjI[OF sd a])
  have B: "\<exists>st'. report_animal id example_now intake_example (Some 2) (report_post ''cat.png'')
             = Inr (st', Redirect ''dashboard'' [''Report submitted successfully!''])
        \<and> length (reports st') = 2 \<and> take 1 (reports st') = reports intake_example
        \<and> map reporter_id (reports st') = [2, 2]
        \<and> map points (users st') = [0, 5] \<and> donations st' = donations intake_example"
    by (rule exI[of _ sr]) (rule conjI[OF sr b])
  show ?thesis by (rule conjI[OF A B])
qed

text \<open>
  C6. A report keeps an image name only when the uploaded file's name has a dot and
  the part after the last dot, lower-cased, is one of png, jpg, jpeg, gif; the name kept
  is \<open>secure_filename\<close> of the uploaded one: no slash, no backslash, only characters of
  \<open>[A-Za-z0-9_.-]\<close>, neither \<open>.\<close> nor \<open>..\<close>, no leading or trailing dot, no \<open>../\<close>
  inside. A file with another extension, such as \<open>payload.exe\<close>, leaves
  \<open>image_filename\<close> unset and nothing is saved, and the report is persisted all the same.
  \<open>../../evil.png\<close> is accepted and stored as \<open>evil.png\<close>, and \<open>Cat.JPG\<close> is
  accepted.
\<close>

theorem report_image_allow_list:
  "(current_user st session = Some cu \<and> req_method req = POST
    \<and> report_animal to_ascii now st session req = Inr (st', resp) \<longrightarrow>
      (\<exists>r. reports st' = reports st @ [r]
         \<and> (\<forall>name. image_filename r = Some name \<longrightarrow>
               (\<exists>file_name. files req ''image'' = Some file_name \<and> file_name \<noteq> []
                  \<and> allowed_file file_name \<and> name = secure_filename to_ascii file_name)
               \<and> uploads st' = uploads st @ [name]
               \<and> CHR ''/'' \<notin> set name \<and> CHR 0x5C \<notin> set name
               \<and> (\<forall>c \<in> set name. filename_char c)
               \<and> name \<noteq> ''.'' \<and> name \<noteq> ''..''
               \<and> (name \<noteq> [] \<longrightarrow> hd name \<noteq> CHR ''.'' \<and> last name \<noteq> CHR ''.'')
               \<and> (\<forall>a b. name \<noteq> a @ ''../'' @ b))
         \<and> (\<forall>file_name. files req ''image'' = Some file_name \<and> \<not> allowed_file file_name \<longrightarrow>
               image_filename r = None \<and> uploads st' = uploads st)
         \<and> (\<forall>file_name. files req ''image'' = Some file_name \<and> file_name \<noteq> []
                \<and> allowed_file file_name \<longrightarrow>
               image_filename r = Some (secure_filename to_ascii file_name))))
   \<and> (allowed_file f \<longleftrightarrow>
        (\<exists>stem ext. f = stem @ ''.'' @ ext \<and> CHR ''.'' \<notin> set ext
           \<and> lower ext \<in> {''png'', ''jpg'', ''jpeg'', ''gif''}))
   \<and> \<not> allowed_file ''payload.exe''
   \<and> (current_user st session = Some cu \<and> req_method req = POST
    \<and> form req ''animal_type'' = Some atype \<and> form req ''description'' = Some descr
    \<and> form req ''location'' = Some loc \<and> form req ''contact'' = Some cont
    \<and> files req ''image'' = Some ''payload.exe'' \<longrightarrow>
      (\<exists>st' r. report_animal to_ascii now st session req
                  = Inr (st', Redirect ''dashboard'' [''Report submitted successfully!''])
         \<and> reports st' = reports st @ [r] \<and> image_filename r = None
         \<and> animal_type r = atype \<and> report_description r = descr \<and> location r = loc
         \<and> contact r = cont \<and> uploads st' = uploads st))
   \<and> allowed_file ''../../evil.png''
   \<and> secure_filename (\<lambda>s. s) ''../../evil.png'' = ''evil.png''
   \<and> allowed_file ''Cat.JPG''"
proof (intro conjI impI; (elim conjE)?)
  assume cu: "current_user st session = Some cu" and post: "req_method req = POST"
    and run: "report_animal to_ascii now st session req = Inr (st', resp)"
  from report_animal_Inr[OF cu post run] obtain atype descr loc cont where
    f: "form req ''animal_type'' = Some atype" "form req ''description'' = Some descr"
      "form req ''location'' = Some loc" "form req ''contact'' = Some cont"
    by blast
  define accepted where "accepted = (case files req ''image'' of
                        None \<Rightarrow> None
                      | Some file_name \<Rightarrow>
                          if file_name \<noteq> [] \<and> allowed_file file_name
                          then Some (secure_filename to_ascii file_name) else None)"
  let ?r = "\<lparr>report_id = next_id (map report_id (reports st)), animal_type = atype,
             report_description = descr, location = loc, contact = cont,
             report_time = Some now, reporter_id = user_id cu,
             image_filename = accepted, latitude = None, longitude = None\<rparr>"
  let ?st1 = "st\<lparr>uploads := uploads st @ (case accepted of None \<Rightarrow> [] | Some n \<Rightarrow> [n]),
                 reports := reports st @ [?r]\<rparr>"
  have eq: "st' = award_points cu 5 ?st1"
    using report_animal_success[OF cu post f, of to_ascii now] run
    by (simp_all add: Let_def accepted_def)
  have r: "reports st' = reports st @ [?r]" and u: "uploads st' = uploads st @ (case accepted of None \<Rightarrow> [] | Some n \<Rightarrow> [n])"
    using eq by (simp_all add: award_points_def)
  have acc1: "\<And>name. accepted = Some name \<Longrightarrow>
       \<exists>file_name. files req ''image'' = Some file_name \<and> file_name \<noteq> []
                  \<and> allowed_file file_name \<and> name = secure_filename to_ascii file_name"
    by (auto simp: accepted_def split: option.splits if_splits)
  have acc2: "\<And>file_name. files req ''image'' = Some file_name \<Longrightarrow> \<not> allowed_file file_name \<Longrightarrow> accepted = None"
    by (simp add: accepted_def)
  have acc3: "\<And>file_name. files req ''image'' = Some file_name \<Longrightarrow> file_name \<noteq> [] \<Longrightarrow> allowed_file file_name
       \<Longrightarrow> accepted = Some (secure_filename to_ascii file_name)"
    by (simp add: accepted_def)
  have p1: "\<forall>name. image_filename ?r = Some name \<longrightarrow>
               (\<exists>file_name. files req ''image'' = Some file_name \<and> file_name \<noteq> []
                  \<and> allowed_file file_name \<and> name = secure_filename to_ascii file_name)
               \<and> uploads st' = uploads st @ [name]
               \<and> CHR ''/'' \<notin> set name \<and> CHR 0x5C \<notin> set name
               \<and> (\<forall>c \<in> set name. filename_char c)
               \<and> name \<noteq> ''.'' \<and> name \<noteq> ''..''
               \<and> (name \<noteq> [] \<longrightarrow> hd name \<noteq> CHR ''.'' \<and> last name \<noteq> CHR ''.'')
               \<and> (\<forall>a b. name \<noteq> a @ ''../'' @ b)"
  proof (intro allI impI)
    fix name assume "image_filename ?r = Some name"
    then have a: "accepted = Some name" by simp
    from acc1[OF a] obtain file_name where fn: "files req ''image'' = Some file_name" "file_name \<noteq> []"
      "allowed_file file_name" "name = secure_filename to_ascii file_name" by blast
    have up: "uploads st' = uploads st @ [name]" using u a by simp
    show "(\<exists>file_name. files req ''image'' = Some file_name \<and> file_name \<noteq> []
                  \<and> allowed_file file_name \<and> name = secure_filename to_ascii file_name)
               \<and> uploads st' = uploads st @ [name]
               \<and> CHR ''/'' \<notin> set name \<and> CHR 0x5C \<notin> set name
               \<and> (\<forall>c \<in> set name. filename_char c)
               \<and> name \<noteq> ''.'' \<and> name \<noteq> ''..''
               \<and> (name \<noteq> [] \<longrightarrow> hd name \<noteq> CHR ''.'' \<and> last name \<noteq> CHR ''.'')
               \<and> (\<forall>a b. name \<noteq> a @ ''../'' @ b)"
    proof (rule conjI[OF _ conjI[OF up]])
      show "\<exists>file_name. files req ''image'' = Some file_name \<and> file_name \<noteq> []
                  \<and> allowed_file file_name \<and> name = secure_filename to_ascii file_name"
        by (intro exI[of _ file_name] conjI fn)
      show "CHR ''/'' \<notin> set name \<and> CHR 0x5C \<notin> set name
               \<and> (\<forall>c \<in> set name. filename_char c)
               \<and> name \<noteq> ''.'' \<and> name \<noteq> ''..''
               \<and> (name \<noteq> [] \<longrightarrow> hd name \<noteq> CHR ''.'' \<and> last name \<noteq> CHR ''.'')
               \<and> (\<forall>a b. name \<noteq> a @ ''../'' @ b)"
        unfolding fn(4) by (rule secure_filename_safe)
    qed
  qed
  have p2: "\<forall>file_name. files req ''image'' = Some file_name \<and> \<not> allowed_file file_name \<longrightarrow>
               image_filename ?r = None \<and> uploads st' = uploads st"
    using acc2 u by auto
  have p3: "\<forall>file_name. files req ''image'' = Some file_name \<and> file_name \<noteq> []
                \<and> allowed_file file_name \<longrightarrow>
               image_filename ?r = Some (secure_filename to_ascii file_name)"
    using acc3 by simp
  show "\<exists>r. reports st' = reports st @ [r]
         \<and> (\<forall>name. image_filename r = Some name \<longrightarrow>
               (\<exists>file_name. files req ''image'' = Some file_name \<and> file_name \<noteq> []
                  \<and> allowed_file file_name \<and> name = secure_filename to_ascii file_name)
               \<and> uploads st' = uploads st @ [name]
               \<and> CHR ''/'' \<notin> set name \<and> CHR 0x5C \<notin> set name
               \<and> (\<forall>c \<in> set name. filename_char c)
               \<and> name \<noteq> ''.'' \<and> name \<noteq> ''..''
               \<and> (name \<noteq> [] \<longrightarrow> hd name \<noteq> CHR ''.'' \<and> last name \<noteq> CHR ''.'')
               \<and> (\<forall>a b. name \<noteq> a @ ''../'' @ b))
         \<and> (\<forall>file_name. files req ''image'' = Some file_name \<and> \<not> allowed_file file_name \<longrightarrow>
               image_filename r = None \<and> uploads st' = uploads st)
         \<and> (\<forall>file_name. files req ''image'' = Some file_name \<and> file_name \<noteq> []
                \<and> allowed_file file_name \<longrightarrow>
               image_filename r = Some (secure_filename to_ascii file_name))"
    by (rule exI[of _ ?r]) (intro conjI r p1 p2 p3)
next
  show "allowed_file f \<longleftrightarrow>
        (\<exists>stem ext. f = stem @ ''.'' @ ext \<and> CHR ''.'' \<notin> set ext
           \<and> lower ext \<in> {''png'', ''jpg'', ''jpeg'', ''gif''})"
    by (rule allowed_file_iff)
next
  show "\<not> allowed_file ''payload.exe''" by (rule payload_exe_rejected)
next
  assume cu: "current_user st session = Some cu" and post: "req_method req = POST"
    and f: "form req ''animal_type'' = Some atype" "form req ''description'' = Some descr"
      "form req ''location'' = Some loc" "form req ''contact'' = Some cont"
    and img: "files req ''image'' = Some ''payload.exe''"
  let ?r = "\<lparr>report_id = next_id (map report_id (reports st)), animal_type = atype,
             report_description = descr, location = loc, contact = cont,
             report_time = Some now, reporter_id = user_id cu,
             image_filename = None, latitude = None, longitude = None\<rparr>"
  let ?st' = "award_points cu 5 (st\<lparr>uploads := uploads st, reports := reports st @ [?r]\<rparr>)"
  have "report_animal to_ascii now st session req
          = Inr (?st', Redirect ''dashboard'' [''Report submitted successfully!''])"
    using report_animal_success[OF cu post f, of to_ascii now] img payload_exe_rejected
    by (simp add: Let_def)
  moreover have "reports ?st' = reports st @ [?r]" "uploads ?st' = uploads st"
    by (simp_all add: award_points_def)
  ultimately show "\<exists>st' r. report_animal to_ascii now st session req
                  = Inr (st', Redirect ''dashboard'' [''Report submitted successfully!''])
         \<and> reports st' = reports st @ [r] \<and> image_filename r = None
         \<and> animal_type r = atype \<and> report_description r = descr \<and> location r = loc
         \<and> contact r = cont \<and> uploads st' = uploads st"
    by (intro exI[of _ ?st'] exI[of _ ?r]) simp
next
  show "allowed_file ''../../evil.png''" by (rule evil_png_allowed)
next
  show "secure_filename (\<lambda>s. s) ''../../evil.png'' = ''evil.png''"
    using evil_png_sanitized by (simp add: id_def)
next
  show "allowed_file ''Cat.JPG''" by (rule upper_case_allowed)
qed

theorem report_image_allow_list_witness:
  "(\<exists>st' r. report_animal id example_now intake_example (Some 2) (report_post ''../../evil.png'')
               = Inr (st', Redirect ''dashboard'' [''Report submitted successfully!''])
        \<and> reports st' = reports intake_example @ [r]
        \<and> image_filename r = Some ''evil.png'' \<and> uploads st' = [''evil.png''])
   \<and> (\<exists>st' r. report_animal id example_now intake_example (Some 2) (report_post ''payload.exe'')
               = Inr (st', Redirect ''dashboard'' [''Report submitted successfully!''])
        \<and> reports st' = reports intake_example @ [r]
        \<and> image_filename r = None \<and> uploads st' = [])"
proof -
  have cu: "current_user intake_example (Some 2) = Some example_user"
    by (simp add: current_user_def intake_example_def example_user_def example_admin_def)
  have pr: "\<And>n. req_method (report_post n) = POST"
    "\<And>n. form (report_post n) ''animal_type'' = Some ''dog''"
    "\<And>n. form (report_post n) ''description'' = Some ''limping''"
    "\<And>n. form (report_post n) ''location'' = Some ''Indiranagar''"
    "\<And>n. form (report_post n) ''contact'' = Some ''080''"
    "\<And>n. files (report_post n) ''image'' = Some n"
    by (simp_all add: report_post_def)
  have up: "uploads intake_example = []" by (simp add: intake_example_def)
  note t = report_image_allow_list[where st = intake_example and session = "Some 2"
      and cu = example_user and to_ascii = id and now = example_now]
  obtain se where se: "report_animal id example_now intake_example (Some 2) (report_post ''../../evil.png'')
               = Inr (se, Redirect ''dashboard'' [''Report submitted successfully!''])"
    using report_animal_returns[OF cu pr(1-5)] by blast
  have "\<exists>r. reports se = reports intake_example @ [r]
         \<and> (\<forall>name. image_filename r = Some name \<longrightarrow>
               (\<exists>file_name. files (report_post ''../../evil.png'') ''image'' = Some file_name \<and> file_name \<noteq> []
                  \<and> allowed_file file_name \<and> name = secure_filename id file_name)
               \<and> uploads se = uploads intake_example @ [name]
               \<and> CHR ''/'' \<notin> set name \<and> CHR 0x5C \<notin> set name
               \<and> (\<forall>c \<in> set name. filename_char c)
               \<and> name \<noteq> ''.'' \<and> name \<noteq> ''..''
               \<and> (name \<noteq> [] \<longrightarrow> hd name \<noteq> CHR ''.'' \<and> last name \<noteq> CHR ''.'')
               \<and> (\<forall>a b. name \<noteq> a @ ''../'' @ b))
         \<and> (\<forall>file_name. files (report_post ''../../evil.png'') ''image'' = Some file_name
                \<and> \<not> allowed_file file_name \<longrightarrow>
               image_filename r = None \<and> uploads se = uploads intake_example)
         \<and> (\<forall>file_name. files (report_post ''../../evil.png'') ''image'' = Some file_name \<and> file_name \<noteq> []
                \<and> allowed_file file_name \<longrightarrow>
               image_filename r = Some (secure_filename id file_name))"
    by (rule t[where req = "report_post ''../../evil.png''" and st' = se
               and resp = "Redirect ''dashboard'' [''Report submitted successfully!'']",
               THEN conjunct1, rule_format])
       (intro conjI cu pr(1) se)
  then obtain r where r: "reports se = reports intake_example @ [r]"
    and r1: "\<forall>name. image_filename r = Some name \<longrightarrow>
               (\<exists>file_name. files (report_post ''../../evil.png'') ''image'' = Some file_name \<and> file_name \<noteq> []
                  \<and> allowed_file file_name \<and> name = secure_filename id file_name)
               \<and> uploads se = uploads intake_example @ [name]
               \<and> CHR ''/'' \<notin> set name \<and> CHR 0x5C \<notin> set name
               \<and> (\<forall>c \<in> set name. filename_char c)
               \<and> name \<noteq> ''.'' \<and> name \<noteq> ''..''
               \<and> (name \<noteq> [] \<longrightarrow> hd name \<noteq> CHR ''.'' \<and> last name \<noteq> CHR ''.'')
               \<and> (\<forall>a b. name \<noteq> a @ ''../'' @ b)"
    and r3: "\<forall>file_name. files (report_post ''../../evil.png'') ''image'' = Some file_name \<and> file_name \<noteq> []
                \<and> allowed_file file_name \<longrightarrow>
               image_filename r = Some (secure_filename id file_name)"
    by blast
  have ne: "''../../evil.png'' \<noteq> []" by simp
  have img: "image_filename r = Some (secure_filename id ''../../evil.png'')"
    by (rule r3[rule_format]) (intro conjI pr(6) ne evil_png_allowed)
  then have img': "image_filename r = Some ''evil.png''" by (simp only: evil_png_sanitized)
  have "uploads se = uploads intake_example @ [''evil.png'']"
    using r1[rule_format, OF img'] by (rule conjunct2[THEN conjunct1])
  then have ue: "uploads se = [''evil.png'']" by (simp add: up)
  have A: "\<exists>st' r. report_animal id example_now intake_example (Some 2) (report_post ''../../evil.png'')
               = Inr (st', Redirect ''dashboard'' [''Report submitted successfully!''])
        \<and> reports st' = reports intake_example @ [r]
        \<and> image_filename r = Some ''evil.png'' \<and> uploads st' = [''evil.png'']"
    by (intro exI[of _ se] exI[of _ r] conjI se r img' ue)
  have "\<exists>st' r. report_animal id example_now intake_example (Some 2) (report_post ''payload.exe'')
                  = Inr (st', Redirect ''dashboard'' [''Report submitted successfully!''])
         \<and> reports st' = reports intake_example @ [r] \<and> image_filename r = None
         \<and> animal_type r = ''dog'' \<and> report_description r = ''limping'' \<and> location r = ''Indiranagar''
         \<and> contact r = ''080'' \<and> uploads st' = uploads intake_example"
    by (rule t[where req = "report_post ''payload.exe''",
               THEN conjunct2, THEN conjunct2, THEN conjunct2, THEN conjunct1, rule_format])
       (intro conjI cu pr)
  then obtain sp rp where sp: "report_animal id example_now intake_example (Some 2) (report_post ''payload.exe'')
                  = Inr (sp, Redirect ''dashboard'' [''Report submitted successfully!''])"
    and rp: "reports sp = reports intake_example @ [rp]" "image_filename rp = None"
    and upp: "uploads sp = uploads intake_example"
    by blast
  have B: "\<exists>st' r. report_animal id example_now intake_example (Some 2) (report_post ''payload.exe'')
               = Inr (st', Redirect ''dashboard'' [''Report submitted successfully!''])
        \<and> reports st' = reports intake_example @ [r]
        \<and> image_filename r = None \<and> uploads st' = []"
    by (intro exI[of _ sp] exI[of _ rp] conjI sp rp) (simp add: upp up)
  show ?thesis by (rule conjI[OF A B])
qed




text \<open>
  C8 at its failing input. A registration whose user name is taken and whose e-mail
  address is new passes the handler's only lookup (by e-mail) and fails in the INSERT
  with \<open>IntegrityError\<close>; a registration whose e-mail address is taken is answered with
  the message and the redirect to the registration form, the store unchanged.
\<close>

theorem register_duplicate_username_raises:
  "register example_hash volunteers_example (register_post ''ravi'' ''other@example.org'' ''donor'')
     = Inl IntegrityError
   \<and> register example_hash volunteers_example (register_post ''someone'' ''ravi@example.org'' ''donor'')
     = Inr (volunteers_example,
            Redirect ''register'' [''Email already registered. Please use a different email.''])"
proof
  show "register example_hash volunteers_example (register_post ''ravi'' ''other@example.org'' ''donor'')
     = Inl IntegrityError"
    by (rule register_duplicate_username[where uname = "''ravi''" and mail = "''other@example.org''"
          and pw = "''secret''" and rl = "''donor''"])
       (simp_all add: register_post_def volunteers_example_def example_user_def)
  show "register example_hash volunteers_example (register_post ''someone'' ''ravi@example.org'' ''donor'')
     = Inr (volunteers_example,
            Redirect ''register'' [''Email already registered. Please use a different email.''])"
    by (rule register_duplicate_email[where uname = "''someone''" and mail = "''ravi@example.org''"
          and pw = "''secret''" and rl = "''donor''"])
       (simp_all add: register_post_def volunteers_example_def example_user_def)
qed

text \<open>
  C9. \<open>register\<close> stores the role the form supplies, whatever it is. When user name and
  e-mail address are new, the new user carries that role; logging in with the same
  password makes that user the current user; and when the role is \<open>admin\<close> the user
  passes the gate of \<open>stats\<close> and of \<open>create_event\<close> (the page is rendered, the event
  is created), while any other role is turned away by both.
\<close>

theorem registration_accepts_any_role:
  "req_method req = POST \<and> form req ''username'' = Some uname \<and> form req ''password'' = Some pw
   \<and> form req ''email'' = Some mail \<and> form req ''role'' = Some rl
   \<and> (\<forall>u \<in> set (users st). username u \<noteq> uname \<and> email u \<noteq> mail) \<longrightarrow>
     (\<exists>st' nu. register hash st req
                 = Inr (st', Redirect ''login'' [''Registration successful! Please login.''])
        \<and> users st' = users st @ [nu] \<and> username nu = uname \<and> email nu = mail \<and> role nu = rl
        \<and> password nu = hash pw \<and> points nu = 0
        \<and> user_id nu = next_id (map user_id (users st))
        \<and> donations st' = donations st \<and> reports st' = reports st \<and> events st' = events st
        \<and> current_user st' (Some (user_id nu)) = Some nu
        \<and> (check (hash pw) pw \<and> req_method lreq = POST \<and> form lreq ''username'' = Some uname
            \<and> form lreq ''password'' = Some pw \<longrightarrow>
              login check st' None lreq = Inr (Some (user_id nu), Redirect ''dashboard'' []))
        \<and> (rl = ''admin'' \<longrightarrow>
              stats sum_quantity st' (Some (user_id nu))
                \<noteq> Inr (Redirect ''dashboard'' [''You are not authorized to view analytics.''])
              \<and> stats sum_quantity st' (Some (user_id nu)) \<noteq> Inr unauthorized
              \<and> ((\<forall>r \<in> set (reports st). report_time r \<noteq> None)
                  \<and> sum_quantity (map quantity (donations st)) = Inr summed \<longrightarrow>
                    (\<exists>page. stats sum_quantity st' (Some (user_id nu)) = Inr (Render ''stats.html'' page)))
              \<and> (req_method greq = GET \<longrightarrow>
                    create_event strptime st' (Some (user_id nu)) greq
                      = Inr (st', Render ''create_event.html'' ()))
              \<and> (req_method ereq = POST \<and> form ereq ''title'' = Some ttl
                  \<and> form ereq ''description'' = Some descr \<and> form ereq ''event_time'' = Some tstr
                  \<and> strptime tstr = Some etime \<and> form ereq ''location'' = Some loc \<longrightarrow>
                    create_event strptime st' (Some (user_id nu)) ereq
                      = Inr (st'\<lparr>events := events st' @
                               [\<lparr>event_id = next_id (map event_id (events st')), title = ttl,
                                 event_description = descr, event_time = etime,
                                 event_location = loc\<rparr>]\<rparr>,
                             Redirect ''events'' [''Event created successfully!''])))
        \<and> (rl \<noteq> ''admin'' \<longrightarrow>
              stats sum_quantity st' (Some (user_id nu))
                = Inr (Redirect ''dashboard'' [''You are not authorized to view analytics.''])
              \<and> create_event strptime st' (Some (user_id nu)) greq
                = Inr (st', Redirect ''dashboard'' [''You are not authorized to create events.''])))"
proof (intro impI, elim conjE)
  assume post: "req_method req = POST"
    and f: "form req ''username'' = Some uname" "form req ''password'' = Some pw"
      "form req ''email'' = Some mail" "form req ''role'' = Some rl"
    and fresh: "\<forall>u \<in> set (users st). username u \<noteq> uname \<and> email u \<noteq> mail"
  define nu where "nu = \<lparr>user_id = next_id (map user_id (users st)), username = uname,
                  password = hash pw, email = mail, role = rl, points = 0\<rparr>"
  define st' where "st' = st\<lparr>users := users st @ [nu]\<rparr>"
  have reg: "register hash st req = Inr (st', Redirect ''login'' [''Registration successful! Please login.''])"
    using register_success[OF post f fresh, of hash] by (simp add: st'_def nu_def)
  have us: "users st' = users st @ [nu]" by (simp add: st'_def)
  have fields: "username nu = uname" "email nu = mail" "role nu = rl" "password nu = hash pw" "points nu = 0"
    "user_id nu = next_id (map user_id (users st))"
    by (simp_all add: nu_def)
  have other: "donations st' = donations st" "reports st' = reports st" "events st' = events st"
    by (simp_all add: st'_def)
  have cur: "current_user st' (Some (user_id nu)) = Some nu"
    by (rule current_user_new[OF us]) (simp add: nu_def)
  have log: "check (hash pw) pw \<and> req_method lreq = POST \<and> form lreq ''username'' = Some uname
            \<and> form lreq ''password'' = Some pw \<longrightarrow>
              login check st' None lreq = Inr (Some (user_id nu), Redirect ''dashboard'' [])"
  proof (intro impI, elim conjE)
    assume c: "check (hash pw) pw" and l: "req_method lreq = POST" "form lreq ''username'' = Some uname"
      "form lreq ''password'' = Some pw"
    show "login check st' None lreq = Inr (Some (user_id nu), Redirect ''dashboard'' [])"
      by (rule login_new[OF us]) (use fresh c l fields in simp_all)
  qed
  have adm: "rl = ''admin'' \<longrightarrow>
              stats sum_quantity st' (Some (user_id nu))
                \<noteq> Inr (Redirect ''dashboard'' [''You are not authorized to view analytics.''])
              \<and> stats sum_quantity st' (Some (user_id nu)) \<noteq> Inr unauthorized
              \<and> ((\<forall>r \<in> set (reports st). report_time r \<noteq> None)
                  \<and> sum_quantity (map quantity (donations st)) = Inr summed \<longrightarrow>
                    (\<exists>page. stats sum_quantity st' (Some (user_id nu)) = Inr (Render ''stats.html'' page)))
              \<and> (req_method greq = GET \<longrightarrow>
                    create_event strptime st' (Some (user_id nu)) greq
                      = Inr (st', Render ''create_event.html'' ()))
              \<and> (req_method ereq = POST \<and> form ereq ''title'' = Some ttl
                  \<and> form ereq ''description'' = Some descr \<and> form ereq ''event_time'' = Some tstr
                  \<and> strptime tstr = Some etime \<and> form ereq ''location'' = Some loc \<longrightarrow>
                    create_event strptime st' (Some (user_id nu)) ereq
                      = Inr (st'\<lparr>events := events st' @
                               [\<lparr>event_id = next_id (map event_id (events st')), title = ttl,
                                 event_description = descr, event_time = etime,
                                 event_location = loc\<rparr>]\<rparr>,
                             Redirect ''events'' [''Event created successfully!'']))"
  proof
    assume "rl = ''admin''"
    then have ra: "role nu = ''admin''" using fields by simp
    note g = admin_passes_gates[OF cur ra]
    have s: "(\<forall>r \<in> set (reports st). report_time r \<noteq> None)
                  \<and> sum_quantity (map quantity (donations st)) = Inr summed \<longrightarrow>
                    (\<exists>page. stats sum_quantity st' (Some (user_id nu)) = Inr (Render ''stats.html'' page))"
      using stats_admin[OF cur ra, where sum_quantity = sum_quantity and summed = summed] other(1,2)
      by auto
    show "stats sum_quantity st' (Some (user_id nu))
                \<noteq> Inr (Redirect ''dashboard'' [''You are not authorized to view analytics.''])
              \<and> stats sum_quantity st' (Some (user_id nu)) \<noteq> Inr unauthorized
              \<and> ((\<forall>r \<in> set (reports st). report_time r \<noteq> None)
                  \<and> sum_quantity (map quantity (donations st)) = Inr summed \<longrightarrow>
                    (\<exists>page. stats sum_quantity st' (Some (user_id nu)) = Inr (Render ''stats.html'' page)))
              \<and> (req_method greq = GET \<longrightarrow>
                    create_event strptime st' (Some (user_id nu)) greq
                      = Inr (st', Render ''create_event.html'' ()))
              \<and> (req_method ereq = POST \<and> form ereq ''title'' = Some ttl
                  \<and> form ereq ''description'' = Some descr \<and> form ereq ''event_time'' = Some tstr
                  \<and> strptime tstr = Some etime \<and> form ereq ''location'' = Some loc \<longrightarrow>
                    create_event strptime st' (Some (user_id nu)) ereq
                      = Inr (st'\<lparr>events := events st' @
                               [\<lparr>event_id = next_id (map event_id (events st')), title = ttl,
                                 event_description = descr, event_time = etime,
                                 event_location = loc\<rparr>]\<rparr>,
                             Redirect ''events'' [''Event created successfully!'']))"
    proof (intro conjI)
      show "stats sum_quantity st' (Some (user_id nu))
                \<noteq> Inr (Redirect ''dashboard'' [''You are not authorized to view analytics.''])"
        by (rule g(1))
      show "stats sum_quantity st' (Some (user_id nu)) \<noteq> Inr unauthorized" by (rule g(2))
      show "(\<forall>r \<in> set (reports st). report_time r \<noteq> None)
                  \<and> sum_quantity (map quantity (donations st)) = Inr summed \<longrightarrow>
                    (\<exists>page. stats sum_quantity st' (Some (user_id nu)) = Inr (Render ''stats.html'' page))"
        by (rule s)
      show "req_method greq = GET \<longrightarrow>
                    create_event strptime st' (Some (user_id nu)) greq
                      = Inr (st', Render ''create_event.html'' ())"
        using g(3)[of greq strptime] by blast
      show "req_method ereq = POST \<and> form ereq ''title'' = Some ttl
                  \<and> form ereq ''description'' = Some descr \<and> form ereq ''event_time'' = Some tstr
                  \<and> strptime tstr = Some etime \<and> form ereq ''location'' = Some loc \<longrightarrow>
                    create_event strptime st' (Some (user_id nu)) ereq
                      = Inr (st'\<lparr>events := events st' @
                               [\<lparr>event_id = next_id (map event_id (events st')), title = ttl,
                                 event_description = descr, event_time = etime,
                                 event_location = loc\<rparr>]\<rparr>,
                             Redirect ''events'' [''Event created successfully!''])"
      proof (intro impI, elim conjE)
        assume "req_method ereq = POST" "form ereq ''title'' = Some ttl"
          "form ereq ''description'' = Some descr" "form ereq ''event_time'' = Some tstr"
          "strptime tstr = Some etime" "form ereq ''location'' = Some loc"
        then show "create_event strptime st' (Some (user_id nu)) ereq
                      = Inr (st'\<lparr>events := events st' @
                               [\<lparr>event_id = next_id (map event_id (events st')), title = ttl,
                                 event_description = descr, event_time = etime,
                                 event_location = loc\<rparr>]\<rparr>,
                             Redirect ''events'' [''Event created successfully!''])"
          by (rule g(4)[where strptime = strptime])
      qed
    qed
  qed
  have non: "rl \<noteq> ''admin'' \<longrightarrow>
              stats sum_quantity st' (Some (user_id nu))
                = Inr (Redirect ''dashboard'' [''You are not authorized to view analytics.''])
              \<and> create_event strptime st' (Some (user_id nu)) greq
                = Inr (st', Redirect ''dashboard'' [''You are not authorized to create events.''])"
    using cur fields(3) by (simp add: stats_def create_event_def)
  show "\<exists>st' nu. register hash st req
                 = Inr (st', Redirect ''login'' [''Registration successful! Please login.''])
        \<and> users st' = users st @ [nu] \<and> username nu = uname \<and> email nu = mail \<and> role nu = rl
        \<and> password nu = hash pw \<and> points nu = 0
        \<and> user_id nu = next_id (map user_id (users st))
        \<and> donations st' = donations st \<and> reports st' = reports st \<and> events st' = events st
        \<and> current_user st' (Some (user_id nu)) = Some nu
        \<and> (check (hash pw) pw \<and> req_method lreq = POST \<and> form lreq ''username'' = Some uname
            \<and> form lreq ''password'' = Some pw \<longrightarrow>
              login check st' None lreq = Inr (Some (user_id nu), Redirect ''dashboard'' []))
        \<and> (rl = ''admin'' \<longrightarrow>
              stats sum_quantity st' (Some (user_id nu))
                \<noteq> Inr (Redirect ''dashboard'' [''You are not authorized to view analytics.''])
              \<and> stats sum_quantity st' (Some (user_id nu)) \<noteq> Inr unauthorized
              \<and> ((\<forall>r \<in> set (reports st). report_time r \<noteq> None)
                  \<and> sum_quantity (map quantity (donations st)) = Inr summed \<longrightarrow>
                    (\<exists>page. stats sum_quantity st' (Some (user_id nu)) = Inr (Render ''stats.html'' page)))
              \<and> (req_method greq = GET \<longrightarrow>
                    create_event strptime st' (Some (user_id nu)) greq
                      = Inr (st', Render ''create_event.html'' ()))
              \<and> (req_method ereq = POST \<and> form ereq ''title'' = Some ttl
                  \<and> form ereq ''description'' = Some descr \<and> form ereq ''event_time'' = Some tstr
                  \<and> strptime tstr = Some etime \<and> form ereq ''location'' = Some loc \<longrightarrow>
                    create_event strptime st' (Some (user_id nu)) ereq
                      = Inr (st'\<lparr>events := events st' @
                               [\<lparr>event_id = next_id (map event_id (events st')), title = ttl,
                                 event_description = descr, event_time = etime,
                                 event_location = loc\<rparr>]\<rparr>,
                             Redirect ''events'' [''Event created successfully!''])))
        \<and> (rl \<noteq> ''admin'' \<longrightarrow>
              stats sum_quantity st' (Some (user_id nu))
                = Inr (Redirect ''dashboard'' [''You are not authorized to view analytics.''])
              \<and> create_event strptime st' (Some (user_id nu)) greq
                = Inr (st', Redirect ''dashboard'' [''You are not authorized to create events.'']))"
    by (intro exI[of _ st'] exI[of _ nu] conjI reg us fields other cur log adm non)
qed

theorem registration_accepts_any_role_witness:
  "\<exists>st'. register example_hash volunteers_example (register_post ''mallory'' ''mallory@example.org'' ''admin'')
           = Inr (st', Redirect ''login'' [''Registration successful! Please login.''])
      \<and> map role (users st') = [''volunteer'', ''admin'']
      \<and> login example_check st' None (login_post ''mallory'') = Inr (Some 3, Redirect ''dashboard'' [])
      \<and> create_event example_strptime st' (Some 3) example_get = Inr (st', Render ''create_event.html'' ())
      \<and> (\<exists>page. stats example_sum st' (Some 3) = Inr (Render ''stats.html'' page))"
proof -
  let ?req = "register_post ''mallory'' ''mallory@example.org'' ''admin''"
  have h: "req_method ?req = POST \<and> form ?req ''username'' = Some ''mallory''
      \<and> form ?req ''password'' = Some ''secret'' \<and> form ?req ''email'' = Some ''mallory@example.org''
      \<and> form ?req ''role'' = Some ''admin''
      \<and> (\<forall>u \<in> set (users volunteers_example).
            username u \<noteq> ''mallory'' \<and> email u \<noteq> ''mallory@example.org'')"
    by (simp add: register_post_def volunteers_example_def example_user_def)
  have lg: "example_check (example_hash ''secret'') ''secret'' \<and> req_method (login_post ''mallory'') = POST
            \<and> form (login_post ''mallory'') ''username'' = Some ''mallory''
            \<and> form (login_post ''mallory'') ''password'' = Some ''secret''"
    by (simp add: example_check_def login_post_def)
  have rt: "(\<forall>r \<in> set (reports volunteers_example). report_time r \<noteq> None)
            \<and> example_sum (map quantity (donations volunteers_example)) = Inr None"
    by (simp add: volunteers_example_def example_sum_def)
  have gt: "req_method example_get = GET" by (simp add: example_get_def)
  from registration_accepts_any_role[where req = ?req and st = volunteers_example
      and hash = example_hash and check = example_check and lreq = "login_post ''mallory''"
      and greq = example_get and strptime = example_strptime
      and sum_quantity = example_sum and summed = None
      and ereq = example_get and ttl = "''Camp''" and descr = "''Vaccination''"
      and tstr = "''2024-06-01T10:00''" and etime = example_now and loc = "''Park''",
      rule_format, OF h]
  show ?thesis
  proof (elim exE conjE)
    fix st' nu
    assume reg: "register example_hash volunteers_example ?req
           = Inr (st', Redirect ''login'' [''Registration successful! Please login.''])"
      and us: "users st' = users volunteers_example @ [nu]" and rl: "role nu = ''admin''"
      and uid: "user_id nu = next_id (map user_id (users volunteers_example))"
      and log: "example_check (example_hash ''secret'') ''secret'' \<and> req_method (login_post ''mallory'') = POST
            \<and> form (login_post ''mallory'') ''username'' = Some ''mallory''
            \<and> form (login_post ''mallory'') ''password'' = Some ''secret'' \<longrightarrow>
              login example_check st' None (login_post ''mallory'')
                = Inr (Some (user_id nu), Redirect ''dashboard'' [])"
      and adm: "''admin'' = ''admin'' \<longrightarrow>
              stats example_sum st' (Some (user_id nu))
                \<noteq> Inr (Redirect ''dashboard'' [''You are not authorized to view analytics.''])
              \<and> stats example_sum st' (Some (user_id nu)) \<noteq> Inr unauthorized
              \<and> ((\<forall>r \<in> set (reports volunteers_example). report_time r \<noteq> None)
                  \<and> example_sum (map quantity (donations volunteers_example)) = Inr None \<longrightarrow>
                    (\<exists>page. stats example_sum st' (Some (user_id nu)) = Inr (Render ''stats.html'' page)))
              \<and> (req_method example_get = GET \<longrightarrow>
                    create_event example_strptime st' (Some (user_id nu)) example_get
                      = Inr (st', Render ''create_event.html'' ()))
              \<and> (req_method example_get = POST \<and> form example_get ''title'' = Some ''Camp''
                  \<and> form example_get ''description'' = Some ''Vaccination''
                  \<and> form example_get ''event_time'' = Some ''2024-06-01T10:00''
                  \<and> example_strptime ''2024-06-01T10:00'' = Some example_now
                  \<and> form example_get ''location'' = Some ''Park'' \<longrightarrow>
                    create_event example_strptime st' (Some (user_id nu)) example_get
                      = Inr (st'\<lparr>events := events st' @
                               [\<lparr>event_id = next_id (map event_id (events st')), title = ''Camp'',
                                 event_description = ''Vaccination'', event_time = example_now,
                                 event_location = ''Park''\<rparr>]\<rparr>,
                             Redirect ''events'' [''Event created successfully!'']))"
    have id3: "user_id nu = 3"
      using uid by (simp add: next_id_def volunteers_example_def example_user_def)
    have roles: "map role (users st') = [''volunteer'', ''admin'']"
      using us rl by (simp add: volunteers_example_def example_user_def)
    have l: "login example_check st' None (login_post ''mallory'') = Inr (Some 3, Redirect ''dashboard'' [])"
      using log[THEN mp, OF lg] id3 by simp
    note a = adm[THEN mp, OF refl]
    have c: "create_event example_strptime st' (Some 3) example_get = Inr (st', Render ''create_event.html'' ())"
      using a[THEN conjunct2, THEN conjunct2, THEN conjunct2, THEN conjunct1, THEN mp, OF gt] id3 by simp
    have s: "\<exists>page. stats example_sum st' (Some 3) = Inr (Render ''stats.html'' page)"
      using a[THEN conjunct2, THEN conjunct2, THEN conjunct1, THEN mp, OF rt] id3 by simp
    show ?thesis by (intro exI[of _ st'] conjI reg roles l c s)
  qed
qed

end
